theory Spec2Isabelle
  imports Complex_Main
begin

section \<open>Ray-primitive intersection (src/src/intersections.h)\<close>

text \<open>
  A shallow embedding of \<^verbatim>\<open>intersections.h\<close>: the slab test against the unit cube, the
  quadratic solve against the unit sphere, the two algebraic fields and the bounded marcher
  that looks for their zero level-set, and the wrappers that move rays and results between
  world space and object space.

  Numbers. The source computes in IEEE single precision. The model keeps the control flow
  and the special values that decide it (the two infinities and NaN: every comparison with
  NaN is false, a nonzero number divided by zero is infinite, \<open>0/0\<close>, \<open>\<infinity> - \<infinity>\<close> and
  \<open>0 * \<infinity>\<close> are NaN) and computes finite values exactly, over the reals. Rounding, overflow of
  finite operands and the sign of zero are not modelled: a decimal constant of the source is
  its real value, and zero is the positive zero.
\<close>

subsection \<open>Floating-point values\<close>

datatype fp = Num real | PInf | NInf | NaN

instantiation fp :: "{plus, minus, uminus, times, inverse, ord}"
begin

fun uminus_fp :: "fp \<Rightarrow> fp" where
  "uminus_fp (Num a) = Num (- a)"
| "uminus_fp PInf = NInf"
| "uminus_fp NInf = PInf"
| "uminus_fp NaN = NaN"

fun plus_fp :: "fp \<Rightarrow> fp \<Rightarrow> fp" where
  "plus_fp (Num a) (Num b) = Num (a + b)"
| "plus_fp (Num a) PInf = PInf"
| "plus_fp (Num a) NInf = NInf"
| "plus_fp PInf (Num b) = PInf"
| "plus_fp PInf PInf = PInf"
| "plus_fp NInf (Num b) = NInf"
| "plus_fp NInf NInf = NInf"
| "plus_fp PInf NInf = NaN"
| "plus_fp NInf PInf = NaN"
| "plus_fp NaN b = NaN"
| "plus_fp a NaN = NaN"

definition minus_fp :: "fp \<Rightarrow> fp \<Rightarrow> fp" where
  "minus_fp a b = a + (- b)"

fun times_fp :: "fp \<Rightarrow> fp \<Rightarrow> fp" where
  "times_fp (Num a) (Num b) = Num (a * b)"
| "times_fp (Num a) PInf = (if a = 0 then NaN else if 0 < a then PInf else NInf)"
| "times_fp (Num a) NInf = (if a = 0 then NaN else if 0 < a then NInf else PInf)"
| "times_fp PInf (Num b) = (if b = 0 then NaN else if 0 < b then PInf else NInf)"
| "times_fp NInf (Num b) = (if b = 0 then NaN else if 0 < b then NInf else PInf)"
| "times_fp PInf PInf = PInf"
| "times_fp NInf NInf = PInf"
| "times_fp PInf NInf = NInf"
| "times_fp NInf PInf = NInf"
| "times_fp NaN b = NaN"
| "times_fp a NaN = NaN"

fun divide_fp :: "fp \<Rightarrow> fp \<Rightarrow> fp" where
  "divide_fp (Num a) (Num b) =
     (if b = 0 then (if a = 0 then NaN else if 0 < a then PInf else NInf)
      else Num (a / b))"
| "divide_fp (Num a) PInf = Num 0"
| "divide_fp (Num a) NInf = Num 0"
| "divide_fp PInf (Num b) = (if 0 \<le> b then PInf else NInf)"
| "divide_fp NInf (Num b) = (if 0 \<le> b then NInf else PInf)"
| "divide_fp PInf PInf = NaN"
| "divide_fp PInf NInf = NaN"
| "divide_fp NInf PInf = NaN"
| "divide_fp NInf NInf = NaN"
| "divide_fp NaN b = NaN"
| "divide_fp a NaN = NaN"

definition inverse_fp :: "fp \<Rightarrow> fp" where
  "inverse_fp a = divide (Num 1) a"

fun less_fp :: "fp \<Rightarrow> fp \<Rightarrow> bool" where
  "less_fp (Num a) (Num b) = (a < b)"
| "less_fp (Num a) PInf = True"
| "less_fp NInf (Num b) = True"
| "less_fp NInf PInf = True"
| "less_fp a b = False"

fun less_eq_fp :: "fp \<Rightarrow> fp \<Rightarrow> bool" where
  "less_eq_fp (Num a) (Num b) = (a \<le> b)"
| "less_eq_fp (Num a) PInf = True"
| "less_eq_fp NInf (Num b) = True"
| "less_eq_fp NInf PInf = True"
| "less_eq_fp PInf PInf = True"
| "less_eq_fp NInf NInf = True"
| "less_eq_fp a b = False"

instance ..

end

text \<open>\<^verbatim>\<open>sqrt\<close> / \<^verbatim>\<open>glm::sqrt\<close>: NaN below zero, the identity on \<open>+\<infinity>\<close>.\<close>

fun fsqrt :: "fp \<Rightarrow> fp" where
  "fsqrt (Num a) = (if a < 0 then NaN else Num (sqrt a))"
| "fsqrt PInf = PInf"
| "fsqrt NInf = NaN"
| "fsqrt NaN = NaN"

fun is_finite :: "fp \<Rightarrow> bool" where
  "is_finite (Num a) = True"
| "is_finite a = False"

fun is_nan :: "fp \<Rightarrow> bool" where
  "is_nan NaN = True"
| "is_nan a = False"

text \<open>
  \<^verbatim>\<open>glm::min(x, y)\<close> is \<^verbatim>\<open>(y < x) ? y : x\<close> and \<^verbatim>\<open>glm::max(x, y)\<close> is
  \<^verbatim>\<open>(x < y) ? y : x\<close>. The unqualified \<^verbatim>\<open>min\<close>/\<^verbatim>\<open>max\<close> on two floats are CUDA's
  \<^verbatim>\<open>fminf\<close>/\<^verbatim>\<open>fmaxf\<close>, which return the other operand when one is NaN.
\<close>

definition glm_min :: "fp \<Rightarrow> fp \<Rightarrow> fp" where
  "glm_min a b = (if b < a then b else a)"

definition glm_max :: "fp \<Rightarrow> fp \<Rightarrow> fp" where
  "glm_max a b = (if a < b then b else a)"

definition fminf :: "fp \<Rightarrow> fp \<Rightarrow> fp" where
  "fminf a b = (if is_nan a then b else if is_nan b then a else if b < a then b else a)"

definition fmaxf :: "fp \<Rightarrow> fp \<Rightarrow> fp" where
  "fmaxf a b = (if is_nan a then b else if is_nan b then a else if a < b then b else a)"

subsection \<open>Vectors, matrices, rays\<close>

datatype vec3 = Vec3 (vx: fp) (vy: fp) (vz: fp)

datatype vec4 = Vec4 fp fp fp fp

text \<open>A \<^verbatim>\<open>glm::mat4\<close> is four columns.\<close>

datatype mat4 = Mat4 vec4 vec4 vec4 vec4

record Ray =
  origin :: vec3
  direction :: vec3

text \<open>The fields of \<^verbatim>\<open>Geom\<close> (sceneStructs.h) that the intersection tests read.\<close>

record Geom =
  transform :: mat4
  inverseTransform :: mat4
  invTranspose :: mat4

definition vadd :: "vec3 \<Rightarrow> vec3 \<Rightarrow> vec3" where
  "vadd a b = Vec3 (vx a + vx b) (vy a + vy b) (vz a + vz b)"

definition vsub :: "vec3 \<Rightarrow> vec3 \<Rightarrow> vec3" where
  "vsub a b = Vec3 (vx a - vx b) (vy a - vy b) (vz a - vz b)"

definition vneg :: "vec3 \<Rightarrow> vec3" where
  "vneg a = Vec3 (- vx a) (- vy a) (- vz a)"

definition vscale :: "vec3 \<Rightarrow> fp \<Rightarrow> vec3" where
  "vscale a k = Vec3 (vx a * k) (vy a * k) (vz a * k)"

text \<open>\<^verbatim>\<open>v[i]\<close> and \<^verbatim>\<open>v[i] = a\<close> for the indices 0, 1, 2 the source uses.\<close>

definition vidx :: "vec3 \<Rightarrow> nat \<Rightarrow> fp" where
  "vidx v i = (if i = 0 then vx v else if i = 1 then vy v else vz v)"

definition vset :: "vec3 \<Rightarrow> nat \<Rightarrow> fp \<Rightarrow> vec3" where
  "vset v i a =
     (if i = 0 then Vec3 a (vy v) (vz v)
      else if i = 1 then Vec3 (vx v) a (vz v)
      else Vec3 (vx v) (vy v) a)"

definition glm_dot :: "vec3 \<Rightarrow> vec3 \<Rightarrow> fp" where
  "glm_dot a b = vx a * vx b + vy a * vy b + vz a * vz b"

definition glm_length :: "vec3 \<Rightarrow> fp" where
  "glm_length v = fsqrt (glm_dot v v)"

text \<open>\<^verbatim>\<open>glm::normalize(v)\<close> is \<^verbatim>\<open>v * inversesqrt(dot(v, v))\<close>.\<close>

definition glm_normalize :: "vec3 \<Rightarrow> vec3" where
  "glm_normalize v = vscale v (Num 1 / fsqrt (glm_dot v v))"

text \<open>\<^verbatim>\<open>glm::vec4(v, w)\<close>, and \<^verbatim>\<open>glm::vec3(m * v)\<close>: the product, its fourth component dropped.\<close>

definition vec4_of :: "vec3 \<Rightarrow> fp \<Rightarrow> vec4" where
  "vec4_of v w = Vec4 (vx v) (vy v) (vz v) w"

fun multiplyMV :: "mat4 \<Rightarrow> vec4 \<Rightarrow> vec3" where
  "multiplyMV (Mat4 (Vec4 a0 a1 a2 a3) (Vec4 b0 b1 b2 b3) (Vec4 c0 c1 c2 c3) (Vec4 d0 d1 d2 d3))
              (Vec4 x y z w) =
     Vec3 ((a0 * x + b0 * y) + (c0 * z + d0 * w))
          ((a1 * x + b1 * y) + (c1 * z + d1 * w))
          ((a2 * x + b2 * y) + (c2 * z + d2 * w))"

text \<open>\<^verbatim>\<open>getPointOnRay\<close>: the point at parameter \<open>t\<close>, short by \<open>.0001\<close>.\<close>

definition getPointOnRay :: "Ray \<Rightarrow> fp \<Rightarrow> vec3" where
  "getPointOnRay r t =
     vadd (origin r) (vscale (glm_normalize (direction r)) (t - Num 0.0001))"

subsection \<open>The implicit fields\<close>

definition csg1SDF :: "vec3 \<Rightarrow> fp" where
  "csg1SDF p =
     (let x4 = vx p * vx p * vx p * vx p;
          x2 = vx p * vx p;
          y4 = vy p * vy p * vy p * vy p;
          y2 = vy p * vy p;
          z4 = vz p * vz p * vz p * vz p;
          z2 = vz p * vz p
      in x4 - Num 5 * x2 + y4 - Num 5 * y2 + z4 - Num 5 * z2 + Num 11.8)"

definition csg2SDF :: "vec3 \<Rightarrow> fp" where
  "csg2SDF p =
     (let k = Num 5.0;
          a = Num 0.95;
          b = Num 0.5;
          x2 = vx p * vx p;
          y2 = vy p * vy p;
          z2 = vz p * vz p
      in (x2 + y2 + z2 - a * k * k) * (x2 + y2 + z2 - a * k * k)
         - b * ((vz p - k) * (vz p - k) - Num 2 * vx p * vx p)
             * ((vz p + k) * (vz p + k) - Num 2 * vy p * vy p))"

subsection \<open>The marcher\<close>

text \<open>
  \<^verbatim>\<open>csg1Raytrace\<close> and \<^verbatim>\<open>csg2Raytrace\<close> have the same body but for the field they
  evaluate, so the body is modelled once, with the field as a parameter. The state is the
  local variables \<^verbatim>\<open>t\<close> and \<^verbatim>\<open>step\<close> and the reference parameter \<^verbatim>\<open>outside\<close>, and
  two counters that the source does not have: the field evaluations made so far by the
  outer and by the inner loop. The natural number argument of a loop is the number of
  iterations it has left.
\<close>

record mstate =
  m_t :: fp
  m_step :: fp
  m_outside :: bool
  m_coarse :: nat
  m_fine :: nat

definition BIGSTEPSIZE :: fp where
  "BIGSTEPSIZE = Num 0.1"

definition SMALLSTEPSIZE :: fp where
  "SMALLSTEPSIZE = Num 0.02"

fun fine_loop :: "(vec3 \<Rightarrow> fp) \<Rightarrow> vec3 \<Rightarrow> vec3 \<Rightarrow> nat \<Rightarrow> mstate \<Rightarrow> fp \<times> mstate" where
  "fine_loop sdf cam ray 0 s = (Num 0, s)"
| "fine_loop sdf cam ray (Suc n) s =
     (let p = vadd cam (vscale ray (m_t s));
          distance = sdf p;
          s = s\<lparr>m_fine := Suc (m_fine s)\<rparr>
      in if distance < Num 0.001
         then (let s = s\<lparr>m_t := m_t s - m_step s\<rparr> in (m_t s, s))
         else fine_loop sdf cam ray n (s\<lparr>m_t := m_t s + m_step s\<rparr>))"

fun coarse_loop :: "(vec3 \<Rightarrow> fp) \<Rightarrow> vec3 \<Rightarrow> vec3 \<Rightarrow> nat \<Rightarrow> mstate \<Rightarrow> fp \<times> mstate" where
  "coarse_loop sdf cam ray 0 s = (Num 0, s)"
| "coarse_loop sdf cam ray (Suc n) s =
     (let p = vadd cam (vscale ray (m_t s));
          distance = sdf p;
          s = s\<lparr>m_coarse := Suc (m_coarse s)\<rparr>
      in if distance < Num 0.001
         then (let s = s\<lparr>m_t := m_t s - m_step s\<rparr>;
                   s = s\<lparr>m_step := SMALLSTEPSIZE\<rparr>
               in fine_loop sdf cam ray 10 s)
         else coarse_loop sdf cam ray n (s\<lparr>m_t := m_t s + m_step s\<rparr>))"

definition march :: "(vec3 \<Rightarrow> fp) \<Rightarrow> vec3 \<Rightarrow> vec3 \<Rightarrow> bool \<Rightarrow> fp \<times> mstate" where
  "march sdf cam ray outside_in =
     coarse_loop sdf cam ray 700
       \<lparr>m_t = Num 0.0, m_step = BIGSTEPSIZE, m_outside = outside_in, m_coarse = 0, m_fine = 0\<rparr>"

text \<open>The returned \<open>t\<close> and the final value of \<^verbatim>\<open>outside\<close>.\<close>

definition csg1Raytrace :: "vec3 \<Rightarrow> vec3 \<Rightarrow> fp \<Rightarrow> bool \<Rightarrow> fp \<times> bool" where
  "csg1Raytrace cam ray maxdist outside_in =
     (let (t, s) = march csg1SDF cam ray outside_in in (t, m_outside s))"

definition csg2Raytrace :: "vec3 \<Rightarrow> vec3 \<Rightarrow> fp \<Rightarrow> bool \<Rightarrow> fp \<times> bool" where
  "csg2Raytrace cam ray maxdist outside_in =
     (let (t, s) = march csg2SDF cam ray outside_in in (t, m_outside s))"

subsection \<open>Output parameters\<close>

text \<open>
  Every intersection test writes through three references. A test takes the values the
  caller's variables hold and returns the values they hold afterwards, with the result.
\<close>

record outs =
  intersectionPoint :: vec3
  normal :: vec3
  outside :: bool

subsection \<open>Gradient normals and the wrappers of the implicit surfaces\<close>

text \<open>
  \<^verbatim>\<open>EPSILON\<close> is a macro of utilities.h, which is not among the sources: it is a
  parameter here.
\<close>

definition getCsg1Normal :: "fp \<Rightarrow> vec3 \<Rightarrow> vec3" where
  "getCsg1Normal EPSILON p =
     glm_normalize (Vec3
       (csg1SDF (Vec3 (vx p + EPSILON) (vy p) (vz p)) - csg1SDF (Vec3 (vx p - EPSILON) (vy p) (vz p)))
       (csg1SDF (Vec3 (vx p) (vy p + EPSILON) (vz p)) - csg1SDF (Vec3 (vx p) (vy p - EPSILON) (vz p)))
       (csg1SDF (Vec3 (vx p) (vy p) (vz p + EPSILON)) - csg1SDF (Vec3 (vx p) (vy p) (vz p - EPSILON))))"

definition getCsg2Normal :: "fp \<Rightarrow> vec3 \<Rightarrow> vec3" where
  "getCsg2Normal EPSILON p =
     glm_normalize (Vec3
       (csg2SDF (Vec3 (vx p + EPSILON) (vy p) (vz p)) - csg2SDF (Vec3 (vx p - EPSILON) (vy p) (vz p)))
       (csg2SDF (Vec3 (vx p) (vy p + EPSILON) (vz p)) - csg2SDF (Vec3 (vx p) (vy p - EPSILON) (vz p)))
       (csg2SDF (Vec3 (vx p) (vy p) (vz p + EPSILON)) - csg2SDF (Vec3 (vx p) (vy p) (vz p - EPSILON))))"

definition csg1IntersectionTest :: "fp \<Rightarrow> Geom \<Rightarrow> Ray \<Rightarrow> outs \<Rightarrow> fp \<times> outs" where
  "csg1IntersectionTest EPSILON surface r out =
     (let pt = multiplyMV (inverseTransform surface) (vec4_of (origin r) (Num 1.0));
          dir = multiplyMV (inverseTransform surface) (vec4_of (direction r) (Num 0.0));
          (t, ob) = csg1Raytrace pt dir (Num 100) (outside out);
          out = out\<lparr>outside := ob\<rparr>;
          objPt = vadd pt (vscale dir t);
          out = out\<lparr>intersectionPoint :=
                  multiplyMV (transform surface) (vec4_of objPt (Num 1.0))\<rparr>;
          out = out\<lparr>normal :=
                  glm_normalize (multiplyMV (invTranspose surface)
                                   (vec4_of (getCsg1Normal EPSILON objPt) (Num 0.0)))\<rparr>;
          out = (if \<not> outside out then out\<lparr>normal := vneg (normal out)\<rparr> else out)
      in (t, out))"

definition csg2IntersectionTest :: "fp \<Rightarrow> Geom \<Rightarrow> Ray \<Rightarrow> outs \<Rightarrow> fp \<times> outs" where
  "csg2IntersectionTest EPSILON surface r out =
     (let pt = multiplyMV (inverseTransform surface) (vec4_of (origin r) (Num 1.0));
          dir = multiplyMV (inverseTransform surface) (vec4_of (direction r) (Num 0.0));
          (t, ob) = csg2Raytrace pt dir (Num 100) (outside out);
          out = out\<lparr>outside := ob\<rparr>;
          objPt = vadd pt (vscale dir t);
          out = out\<lparr>intersectionPoint :=
                  multiplyMV (transform surface) (vec4_of objPt (Num 1.0))\<rparr>;
          out = out\<lparr>normal :=
                  glm_normalize (multiplyMV (invTranspose surface)
                                   (vec4_of (getCsg2Normal EPSILON objPt) (Num 0.0)))\<rparr>;
          out = (if \<not> outside out then out\<lparr>normal := vneg (normal out)\<rparr> else out)
      in (t, out))"

subsection \<open>The box\<close>

text \<open>
  Modelled from the spec: the value of a default-constructed \<^verbatim>\<open>glm::vec3\<close>
  (\<^verbatim>\<open>glm::vec3 n;\<close>), which glm, not among the sources, decides. The spec has the loop
  record "a unit normal on that axis", which \<^verbatim>\<open>n\<close> is when the two components the loop
  does not assign are zero.
\<close>

definition vec3_default :: vec3 where
  "vec3_default = Vec3 (Num 0) (Num 0) (Num 0)"

record slab =
  tmin :: fp
  tmax :: fp
  tmin_n :: vec3
  tmax_n :: vec3

text \<open>The ray in object space: lines 50 to 52, and 106 to 111 for the sphere.\<close>

definition object_ray :: "Geom \<Rightarrow> Ray \<Rightarrow> Ray" where
  "object_ray g r =
     \<lparr>origin = multiplyMV (inverseTransform g) (vec4_of (origin r) (Num 1.0)),
      direction = glm_normalize
                    (multiplyMV (inverseTransform g) (vec4_of (direction r) (Num 0.0)))\<rparr>"

text \<open>One iteration of the loop over the axes. No test of \<^verbatim>\<open>qdxyz\<close> precedes the divisions.\<close>

definition slab_axis :: "Ray \<Rightarrow> nat \<Rightarrow> slab \<Rightarrow> slab" where
  "slab_axis q xyz sl =
     (let qdxyz = vidx (direction q) xyz;
          t1 = (Num (- 0.5) - vidx (origin q) xyz) / qdxyz;
          t2 = (Num 0.5 - vidx (origin q) xyz) / qdxyz;
          ta = glm_min t1 t2;
          tb = glm_max t1 t2;
          n = vset vec3_default xyz (if t2 < t1 then Num 1 else Num (- 1));
          sl = (if ta > Num 0 \<and> ta > tmin sl then sl\<lparr>tmin := ta, tmin_n := n\<rparr> else sl);
          sl = (if tb < tmax sl then sl\<lparr>tmax := tb, tmax_n := n\<rparr> else sl)
      in sl)"

definition slab_init :: slab where
  "slab_init = \<lparr>tmin = Num (- (10 ^ 38)), tmax = Num (10 ^ 38),
                 tmin_n = vec3_default, tmax_n = vec3_default\<rparr>"

definition slab_loop :: "Ray \<Rightarrow> slab" where
  "slab_loop q = fold (slab_axis q) [0, 1, 2] slab_init"

definition boxIntersectionTest :: "Geom \<Rightarrow> Ray \<Rightarrow> outs \<Rightarrow> fp \<times> outs" where
  "boxIntersectionTest box r out =
     (let q = object_ray box r;
          sl = slab_loop q
      in if tmax sl \<ge> tmin sl \<and> tmax sl > Num 0
         then (let out = out\<lparr>outside := True\<rparr>;
                   (sl, out) = (if tmin sl \<le> Num 0
                                then (sl\<lparr>tmin := tmax sl, tmin_n := tmax_n sl\<rparr>,
                                      out\<lparr>outside := False\<rparr>)
                                else (sl, out));
                   out = out\<lparr>intersectionPoint :=
                           multiplyMV (transform box)
                             (vec4_of (getPointOnRay q (tmin sl)) (Num 1.0))\<rparr>;
                   out = out\<lparr>normal :=
                           glm_normalize (multiplyMV (transform box)
                                            (vec4_of (tmin_n sl) (Num 0.0)))\<rparr>
               in (glm_length (vsub (origin r) (intersectionPoint out)), out))
         else (Num (- 1), out))"

subsection \<open>The sphere\<close>

text \<open>\<^verbatim>\<open>powf(radius, 2)\<close>.\<close>

definition powf_2 :: "fp \<Rightarrow> fp" where
  "powf_2 a = a * a"

definition sphere_radicand :: "Ray \<Rightarrow> fp" where
  "sphere_radicand rt =
     (let radius = Num 0.5;
          vDotDirection = glm_dot (origin rt) (direction rt)
      in vDotDirection * vDotDirection - (glm_dot (origin rt) (origin rt) - powf_2 radius))"

definition sphere_t1 :: "Ray \<Rightarrow> fp" where
  "sphere_t1 rt =
     (let vDotDirection = glm_dot (origin rt) (direction rt);
          squareRoot = fsqrt (sphere_radicand rt);
          firstTerm = - vDotDirection
      in firstTerm + squareRoot)"

definition sphere_t2 :: "Ray \<Rightarrow> fp" where
  "sphere_t2 rt =
     (let vDotDirection = glm_dot (origin rt) (direction rt);
          squareRoot = fsqrt (sphere_radicand rt);
          firstTerm = - vDotDirection
      in firstTerm - squareRoot)"

definition sphereIntersectionTest :: "Geom \<Rightarrow> Ray \<Rightarrow> outs \<Rightarrow> fp \<times> outs" where
  "sphereIntersectionTest sphere r out =
     (let rt = object_ray sphere r;
          radicand = sphere_radicand rt
      in if radicand < Num 0 then (Num (- 1), out)
         else (let t1 = sphere_t1 rt;
                   t2 = sphere_t2 rt
               in if t1 < Num 0 \<and> t2 < Num 0 then (Num (- 1), out)
                  else (let (t, out) = (if t1 > Num 0 \<and> t2 > Num 0
                                        then (fminf t1 t2, out\<lparr>outside := True\<rparr>)
                                        else (fmaxf t1 t2, out\<lparr>outside := False\<rparr>));
                            objspaceIntersection = getPointOnRay rt t;
                            out = out\<lparr>intersectionPoint :=
                                    multiplyMV (transform sphere)
                                      (vec4_of objspaceIntersection (Num 1))\<rparr>;
                            out = out\<lparr>normal :=
                                    glm_normalize (multiplyMV (invTranspose sphere)
                                                     (vec4_of objspaceIntersection (Num 0)))\<rparr>;
                            out = (if \<not> outside out then out\<lparr>normal := vneg (normal out)\<rparr>
                                   else out)
                        in (glm_length (vsub (origin r) (intersectionPoint out)), out))))"

subsection \<open>Auxiliary notions for the statements\<close>

text \<open>The value of \<^verbatim>\<open>t\<close> after \<open>n\<close> executions of \<^verbatim>\<open>t += step\<close>.\<close>

fun steps :: "fp \<Rightarrow> fp \<Rightarrow> nat \<Rightarrow> fp" where
  "steps t step 0 = t"
| "steps t step (Suc n) = steps (t + step) step n"

text \<open>The absolute value of a field value. The source never takes it.\<close>

fun fabsf :: "fp \<Rightarrow> fp" where
  "fabsf (Num a) = Num \<bar>a\<bar>"
| "fabsf PInf = PInf"
| "fabsf NInf = PInf"
| "fabsf NaN = NaN"

text \<open>
  The origin and the direction that the wrappers of the implicit surfaces hand to the marcher
  (lines 207, 208 and 285, 286): the direction is not normalised.
\<close>

definition object_point :: "Geom \<Rightarrow> Ray \<Rightarrow> vec3" where
  "object_point g r = multiplyMV (inverseTransform g) (vec4_of (origin r) (Num 1.0))"

definition object_direction :: "Geom \<Rightarrow> Ray \<Rightarrow> vec3" where
  "object_direction g r = multiplyMV (inverseTransform g) (vec4_of (direction r) (Num 0.0))"

definition vfinite :: "vec3 \<Rightarrow> bool" where
  "vfinite v = (is_finite (vx v) \<and> is_finite (vy v) \<and> is_finite (vz v))"

text \<open>The conditions under which the box test and the sphere test report a hit.\<close>

definition box_hit :: "Geom \<Rightarrow> Ray \<Rightarrow> bool" where
  "box_hit g r =
     (let sl = slab_loop (object_ray g r) in tmax sl \<ge> tmin sl \<and> tmax sl > Num 0)"

definition sphere_hit :: "Geom \<Rightarrow> Ray \<Rightarrow> bool" where
  "sphere_hit g r =
     (let rt = object_ray g r
      in \<not> sphere_radicand rt < Num 0 \<and> \<not> (sphere_t1 rt < Num 0 \<and> sphere_t2 rt < Num 0))"

text \<open>The identity placement.\<close>

definition mat4_identity :: mat4 where
  "mat4_identity =
     Mat4 (Vec4 (Num 1) (Num 0) (Num 0) (Num 0)) (Vec4 (Num 0) (Num 1) (Num 0) (Num 0))
          (Vec4 (Num 0) (Num 0) (Num 1) (Num 0)) (Vec4 (Num 0) (Num 0) (Num 0) (Num 1))"

definition unit_geom :: Geom where
  "unit_geom =
     \<lparr>transform = mat4_identity, inverseTransform = mat4_identity, invTranspose = mat4_identity\<rparr>"

text \<open>
  Two invariants of the loop over the axes: the bounds are never NaN and the upper bound is
  never \<open>+\<infinity>\<close>; and an interval that has become empty for good.
\<close>

definition slab_ok :: "slab \<Rightarrow> bool" where
  "slab_ok sl = (\<not> is_nan (tmin sl) \<and> \<not> is_nan (tmax sl) \<and> tmax sl \<noteq> PInf)"

definition slab_dead :: "slab \<Rightarrow> bool" where
  "slab_dead sl = (slab_ok sl \<and> (tmax sl = NInf \<or> tmin sl = PInf))"

text \<open>
  The parameter at which the box test and the sphere test place the hit: lines 80 to 84
  and 127 to 133.
\<close>

definition box_t :: "Geom \<Rightarrow> Ray \<Rightarrow> fp" where
  "box_t g r =
     (let sl = slab_loop (object_ray g r) in if tmin sl \<le> Num 0 then tmax sl else tmin sl)"

definition sphere_t :: "Geom \<Rightarrow> Ray \<Rightarrow> fp" where
  "sphere_t g r =
     (let rt = object_ray g r; t1 = sphere_t1 rt; t2 = sphere_t2 rt
      in if t1 > Num 0 \<and> t2 > Num 0 then fminf t1 t2 else fmaxf t1 t2)"

text \<open>A placement that scales by \<open>k\<close>, with its inverse and inverse transpose.\<close>

definition mat4_scale :: "real \<Rightarrow> mat4" where
  "mat4_scale k =
     Mat4 (Vec4 (Num k) (Num 0) (Num 0) (Num 0)) (Vec4 (Num 0) (Num k) (Num 0) (Num 0))
          (Vec4 (Num 0) (Num 0) (Num k) (Num 0)) (Vec4 (Num 0) (Num 0) (Num 0) (Num 1))"

definition scaled_geom :: "real \<Rightarrow> Geom" where
  "scaled_geom k =
     \<lparr>transform = mat4_scale k, inverseTransform = mat4_scale (1 / k),
      invTranspose = mat4_scale (1 / k)\<rparr>"

section \<open>Properties\<close>

subsection \<open>The marcher\<close>

lemma fine_loop_frame:
  "m_outside (snd (fine_loop sdf cam ray n s)) = m_outside s \<and>
   m_step (snd (fine_loop sdf cam ray n s)) = m_step s \<and>
   m_coarse (snd (fine_loop sdf cam ray n s)) = m_coarse s"
  by (induction n arbitrary: s) (simp_all add: Let_def)

lemma coarse_loop_outside:
  "m_outside (snd (coarse_loop sdf cam ray n s)) = m_outside s"
  by (induction n arbitrary: s) (simp_all add: Let_def fine_loop_frame)

lemma fine_loop_count:
  "m_fine (snd (fine_loop sdf cam ray n s)) \<le> m_fine s + n"
proof (induction n arbitrary: s)
  case 0
  show ?case by simp
next
  case (Suc n)
  show ?case using Suc.IH [of "s\<lparr>m_fine := Suc (m_fine s), m_t := m_t s + m_step s\<rparr>"]
    by (simp add: Let_def)
qed

lemma coarse_loop_count:
  "m_coarse (snd (coarse_loop sdf cam ray n s)) \<le> m_coarse s + n \<and>
   m_fine (snd (coarse_loop sdf cam ray n s)) \<le> m_fine s + 10"
proof (induction n arbitrary: s)
  case 0
  show ?case by simp
next
  case (Suc n)
  let ?s1 = "s\<lparr>m_coarse := Suc (m_coarse s)\<rparr>"
  show ?case
  proof (cases "sdf (vadd cam (vscale ray (m_t s))) < Num 0.001")
    case True
    let ?s2 = "s\<lparr>m_coarse := Suc (m_coarse s), m_t := m_t s - m_step s, m_step := SMALLSTEPSIZE\<rparr>"
    have "m_fine (snd (fine_loop sdf cam ray 10 ?s2)) \<le> m_fine ?s2 + 10"
      by (rule fine_loop_count)
    moreover have "m_coarse (snd (fine_loop sdf cam ray 10 ?s2)) = m_coarse ?s2"
      by (simp add: fine_loop_frame)
    ultimately show ?thesis using True by (simp add: Let_def)
  next
    case False
    then show ?thesis
      using Suc.IH [of "s\<lparr>m_coarse := Suc (m_coarse s), m_t := m_t s + m_step s\<rparr>"]
      by (simp add: Let_def)
  qed
qed

lemma fine_loop_skip:
  "(\<forall>j<k. \<not> sdf (vadd cam (vscale ray (steps (m_t s) (m_step s) j))) < Num 0.001) \<Longrightarrow>
   fine_loop sdf cam ray (k + n) s =
   fine_loop sdf cam ray n (s\<lparr>m_t := steps (m_t s) (m_step s) k, m_fine := m_fine s + k\<rparr>)"
proof (induction k arbitrary: s)
  case 0
  show ?case by simp
next
  case (Suc k)
  let ?s' = "s\<lparr>m_fine := Suc (m_fine s), m_t := m_t s + m_step s\<rparr>"
  have h0: "\<not> sdf (vadd cam (vscale ray (m_t s))) < Num 0.001"
    using Suc.prems [rule_format, of 0] by simp
  have "\<forall>j<k. \<not> sdf (vadd cam (vscale ray (steps (m_t ?s') (m_step ?s') j))) < Num 0.001"
    using Suc.prems [rule_format, of "Suc j" for j] by simp
  from Suc.IH [OF this] h0 show ?case by (simp add: Let_def)
qed

lemma coarse_loop_skip:
  "(\<forall>j<k. \<not> sdf (vadd cam (vscale ray (steps (m_t s) (m_step s) j))) < Num 0.001) \<Longrightarrow>
   coarse_loop sdf cam ray (k + n) s =
   coarse_loop sdf cam ray n (s\<lparr>m_t := steps (m_t s) (m_step s) k, m_coarse := m_coarse s + k\<rparr>)"
proof (induction k arbitrary: s)
  case 0
  show ?case by simp
next
  case (Suc k)
  let ?s' = "s\<lparr>m_coarse := Suc (m_coarse s), m_t := m_t s + m_step s\<rparr>"
  have h0: "\<not> sdf (vadd cam (vscale ray (m_t s))) < Num 0.001"
    using Suc.prems [rule_format, of 0] by simp
  have "\<forall>j<k. \<not> sdf (vadd cam (vscale ray (steps (m_t ?s') (m_step ?s') j))) < Num 0.001"
    using Suc.prems [rule_format, of "Suc j" for j] by simp
  from Suc.IH [OF this] h0 show ?case by (simp add: Let_def)
qed

lemma steps_Num: "steps (Num a) (Num d) n = Num (a + real n * d)"
  by (induction n arbitrary: a) (simp_all add: algebra_simps)

lemma fine_loop_first:
  assumes "j < n"
    and "\<forall>i<j. \<not> sdf (vadd cam (vscale ray (steps (m_t s) (m_step s) i))) < Num 0.001"
    and "sdf (vadd cam (vscale ray (steps (m_t s) (m_step s) j))) < Num 0.001"
  shows "fine_loop sdf cam ray n s =
         (steps (m_t s) (m_step s) j - m_step s,
          s\<lparr>m_t := steps (m_t s) (m_step s) j - m_step s, m_fine := m_fine s + Suc j\<rparr>)"
proof -
  from assms(1) have n: "n = j + Suc (n - Suc j)"
    by simp
  have "fine_loop sdf cam ray (j + Suc (n - Suc j)) s =
        (steps (m_t s) (m_step s) j - m_step s,
          s\<lparr>m_t := steps (m_t s) (m_step s) j - m_step s, m_fine := m_fine s + Suc j\<rparr>)"
    unfolding fine_loop_skip [OF assms(2)] using assms(3) by (simp add: Let_def)
  with n show ?thesis by simp
qed

lemma coarse_loop_first:
  assumes "k < n"
    and "\<forall>i<k. \<not> sdf (vadd cam (vscale ray (steps (m_t s) (m_step s) i))) < Num 0.001"
    and "sdf (vadd cam (vscale ray (steps (m_t s) (m_step s) k))) < Num 0.001"
  shows "coarse_loop sdf cam ray n s =
         fine_loop sdf cam ray 10
           (s\<lparr>m_coarse := m_coarse s + Suc k,
              m_t := steps (m_t s) (m_step s) k - m_step s, m_step := SMALLSTEPSIZE\<rparr>)"
proof -
  from assms(1) have n: "n = k + Suc (n - Suc k)"
    by simp
  have "coarse_loop sdf cam ray (k + Suc (n - Suc k)) s =
         fine_loop sdf cam ray 10
           (s\<lparr>m_coarse := m_coarse s + Suc k,
              m_t := steps (m_t s) (m_step s) k - m_step s, m_step := SMALLSTEPSIZE\<rparr>)"
    unfolding coarse_loop_skip [OF assms(2)] using assms(3) by (simp add: Let_def)
  with n show ?thesis by simp
qed

lemma minus_Num: "Num a - Num b = Num (a - b)"
  by (simp add: minus_fp_def)

lemma sample_Num:
  "vadd (Vec3 (Num a) (Num b) (Num c)) (vscale (Vec3 (Num d) (Num e) (Num f)) (Num t)) =
   Vec3 (Num (a + d * t)) (Num (b + e * t)) (Num (c + f * t))"
  by (simp add: vadd_def vscale_def)

lemma csg1SDF_Num:
  "csg1SDF (Vec3 (Num a) (Num b) (Num c)) =
   Num (a * a * a * a - 5 * (a * a) + b * b * b * b - 5 * (b * b) + c * c * c * c - 5 * (c * c) + 11.8)"
  by (simp add: csg1SDF_def minus_Num)

lemma quartic_positive: "\<not> (1 - 5 + t * t * t * t - 5 * (t * t) + 118 / 10 < (1 / 1000 :: real))"
proof -
  have "0 \<le> (t * t - 5 / 2) * (t * t - 5 / 2)" by simp
  then show ?thesis by (simp add: algebra_simps)
qed

lemma csg1SDF_beside_axis:
  "\<not> csg1SDF (vadd (Vec3 (Num 1) (Num 0) (Num 0)) (vscale (Vec3 (Num 0) (Num 1) (Num 0)) (Num x)))
      < Num 0.001"
  using quartic_positive [of x] by (simp add: sample_Num csg1SDF_Num)

text \<open>
  C7. \<^verbatim>\<open>csg1Raytrace\<close> and \<^verbatim>\<open>csg2Raytrace\<close> never assign \<^verbatim>\<open>outside\<close>: whatever they
  return, hit or miss, the variable holds the value the caller passed in.
\<close>

theorem outside_never_assigned:
  "snd (csg1Raytrace cam ray maxdist b) = b \<and> snd (csg2Raytrace cam ray maxdist b) = b"
  by (simp add: csg1Raytrace_def csg2Raytrace_def march_def split_def Let_def coarse_loop_outside)

text \<open>
  C6. A call of the marcher evaluates the field at most 700 times in the outer loop and at
  most 10 times in the inner loop. When none of the 700 outer samples meets the test
  \<^verbatim>\<open>distance < 0.001\<close> the call returns 0 after exactly 700 evaluations, and when the inner
  loop, in whatever state it is entered, meets the test at none of its 10 samples, it makes
  the call return 0 as well. \<^verbatim>\<open>csg1Raytrace\<close> and \<^verbatim>\<open>csg2Raytrace\<close> return what the marcher
  returns on their field.
\<close>

theorem marcher_bounded:
  "m_coarse (snd (march sdf cam ray b)) \<le> 700 \<and>
   m_fine (snd (march sdf cam ray b)) \<le> 10 \<and>
   ((\<forall>i<700. \<not> sdf (vadd cam (vscale ray (steps (Num 0) BIGSTEPSIZE i))) < Num 0.001) \<longrightarrow>
      fst (march sdf cam ray b) = Num 0 \<and>
      m_coarse (snd (march sdf cam ray b)) = 700 \<and> m_fine (snd (march sdf cam ray b)) = 0) \<and>
   ((\<forall>j<10. \<not> sdf (vadd cam (vscale ray (steps (m_t s) (m_step s) j))) < Num 0.001) \<longrightarrow>
      fst (fine_loop sdf cam ray 10 s) = Num 0 \<and>
      m_fine (snd (fine_loop sdf cam ray 10 s)) = m_fine s + 10) \<and>
   fst (csg1Raytrace cam ray maxdist b) = fst (march csg1SDF cam ray b) \<and>
   fst (csg2Raytrace cam ray maxdist b) = fst (march csg2SDF cam ray b)"
proof -
  let ?s0 = "\<lparr>m_t = Num 0.0, m_step = BIGSTEPSIZE, m_outside = b, m_coarse = 0, m_fine = 0\<rparr>"
  have a: "m_coarse (snd (march sdf cam ray b)) \<le> 700 \<and> m_fine (snd (march sdf cam ray b)) \<le> 10"
    using coarse_loop_count [of sdf cam ray 700 ?s0] by (simp add: march_def)
  have b: "fst (march sdf cam ray b) = Num 0 \<and>
      m_coarse (snd (march sdf cam ray b)) = 700 \<and> m_fine (snd (march sdf cam ray b)) = 0"
    if h: "\<forall>i<700. \<not> sdf (vadd cam (vscale ray (steps (Num 0) BIGSTEPSIZE i))) < Num 0.001"
  proof -
    have "coarse_loop sdf cam ray (700 + 0) ?s0 =
          coarse_loop sdf cam ray 0
            (?s0\<lparr>m_t := steps (m_t ?s0) (m_step ?s0) 700, m_coarse := m_coarse ?s0 + 700\<rparr>)"
      using h by (intro coarse_loop_skip) simp
    then show ?thesis by (simp add: march_def)
  qed
  have c: "fst (fine_loop sdf cam ray 10 s) = Num 0 \<and>
      m_fine (snd (fine_loop sdf cam ray 10 s)) = m_fine s + 10"
    if h: "\<forall>j<10. \<not> sdf (vadd cam (vscale ray (steps (m_t s) (m_step s) j))) < Num 0.001"
  proof -
    have "fine_loop sdf cam ray (10 + 0) s =
          fine_loop sdf cam ray 0 (s\<lparr>m_t := steps (m_t s) (m_step s) 10, m_fine := m_fine s + 10\<rparr>)"
      using h by (intro fine_loop_skip) simp
    then show ?thesis by simp
  qed
  have d: "fst (csg1Raytrace cam ray maxdist b) = fst (march csg1SDF cam ray b) \<and>
           fst (csg2Raytrace cam ray maxdist b) = fst (march csg2SDF cam ray b)"
    by (simp add: csg1Raytrace_def csg2Raytrace_def split_def Let_def)
  from a b c d show ?thesis by blast
qed

theorem marcher_bounded_witness:
  "fst (csg1Raytrace (Vec3 (Num 1) (Num 0) (Num 0)) (Vec3 (Num 0) (Num 1) (Num 0)) (Num 100) True) = Num 0 \<and>
   m_coarse (snd (march csg1SDF (Vec3 (Num 1) (Num 0) (Num 0)) (Vec3 (Num 0) (Num 1) (Num 0)) True)) = 700 \<and>
   m_fine (snd (march csg1SDF (Vec3 (Num 1) (Num 0) (Num 0)) (Vec3 (Num 0) (Num 1) (Num 0)) True)) = 0 \<and>
   fst (fine_loop csg1SDF (Vec3 (Num 1) (Num 0) (Num 0)) (Vec3 (Num 0) (Num 1) (Num 0)) 10
          \<lparr>m_t = Num 1, m_step = Num 0.02, m_outside = True, m_coarse = 3, m_fine = 0\<rparr>) = Num 0 \<and>
   m_fine (snd (fine_loop csg1SDF (Vec3 (Num 1) (Num 0) (Num 0)) (Vec3 (Num 0) (Num 1) (Num 0)) 10
          \<lparr>m_t = Num 1, m_step = Num 0.02, m_outside = True, m_coarse = 3, m_fine = 0\<rparr>)) = 10"
proof -
  have h1: "\<forall>i<700. \<not> csg1SDF (vadd (Vec3 (Num 1) (Num 0) (Num 0))
                (vscale (Vec3 (Num 0) (Num 1) (Num 0)) (steps (Num 0) BIGSTEPSIZE i))) < Num 0.001"
    by (simp only: BIGSTEPSIZE_def steps_Num csg1SDF_beside_axis) simp
  have h2: "\<forall>j<10. \<not> csg1SDF (vadd (Vec3 (Num 1) (Num 0) (Num 0))
                (vscale (Vec3 (Num 0) (Num 1) (Num 0)) (steps (Num 1) (Num 0.02) j))) < Num 0.001"
    by (simp only: steps_Num csg1SDF_beside_axis) simp
  show ?thesis
    using h1 h2
      marcher_bounded [of csg1SDF "Vec3 (Num 1) (Num 0) (Num 0)" "Vec3 (Num 0) (Num 1) (Num 0)" True
        "\<lparr>m_t = Num 1, m_step = Num 0.02, m_outside = True, m_coarse = 3, m_fine = 0\<rparr>" "Num 100"]
    by simp
qed

lemma march_first:
  assumes "k < 700"
    and "\<forall>i<k. \<not> sdf (vadd cam (vscale ray (Num (real i * 0.1)))) < Num 0.001"
    and "sdf (vadd cam (vscale ray (Num (real k * 0.1)))) < Num 0.001"
    and "j < 10"
    and "\<forall>i<j. \<not> sdf (vadd cam (vscale ray (Num (real k * 0.1 - 0.1 + real i * 0.02)))) < Num 0.001"
    and "sdf (vadd cam (vscale ray (Num (real k * 0.1 - 0.1 + real j * 0.02)))) < Num 0.001"
  shows "march sdf cam ray b =
         (Num (real k * 0.1 - 0.1 + real j * 0.02 - 0.02),
          \<lparr>m_t = Num (real k * 0.1 - 0.1 + real j * 0.02 - 0.02), m_step = SMALLSTEPSIZE,
           m_outside = b, m_coarse = Suc k, m_fine = Suc j\<rparr>)"
proof -
  let ?s0 = "\<lparr>m_t = Num 0.0, m_step = BIGSTEPSIZE, m_outside = b, m_coarse = 0, m_fine = 0\<rparr>"
  let ?s1 = "?s0\<lparr>m_coarse := m_coarse ?s0 + Suc k,
              m_t := steps (m_t ?s0) (m_step ?s0) k - m_step ?s0, m_step := SMALLSTEPSIZE\<rparr>"
  have c: "coarse_loop sdf cam ray 700 ?s0 = fine_loop sdf cam ray 10 ?s1"
    using assms(1,2,3) by (intro coarse_loop_first) (simp_all add: BIGSTEPSIZE_def steps_Num)
  have f: "fine_loop sdf cam ray 10 ?s1 =
           (steps (m_t ?s1) (m_step ?s1) j - m_step ?s1,
            ?s1\<lparr>m_t := steps (m_t ?s1) (m_step ?s1) j - m_step ?s1, m_fine := m_fine ?s1 + Suc j\<rparr>)"
    using assms(4,5,6)
    by (intro fine_loop_first)
       (simp_all add: BIGSTEPSIZE_def SMALLSTEPSIZE_def steps_Num minus_Num)
  show ?thesis
    unfolding march_def c f
    by (simp add: BIGSTEPSIZE_def SMALLSTEPSIZE_def steps_Num minus_Num)
qed

lemma march_exhaust:
  assumes "\<forall>i<700. \<not> sdf (vadd cam (vscale ray (Num (real i * 0.1)))) < Num 0.001"
  shows "fst (march sdf cam ray b) = Num 0"
proof -
  let ?s0 = "\<lparr>m_t = Num 0.0, m_step = BIGSTEPSIZE, m_outside = b, m_coarse = 0, m_fine = 0\<rparr>"
  have "coarse_loop sdf cam ray (700 + 0) ?s0 =
        coarse_loop sdf cam ray 0
          (?s0\<lparr>m_t := steps (m_t ?s0) (m_step ?s0) 700, m_coarse := m_coarse ?s0 + 700\<rparr>)"
    using assms by (intro coarse_loop_skip) (simp add: BIGSTEPSIZE_def steps_Num)
  then show ?thesis by (simp add: march_def)
qed

lemma march_first_sample:
  assumes "sdf (vadd cam (vscale ray (Num 0))) < Num 0.001"
    and "sdf (vadd cam (vscale ray (Num (- 0.1)))) < Num 0.001"
  shows "march sdf cam ray b =
         (Num (- 0.12),
          \<lparr>m_t = Num (- 0.12), m_step = SMALLSTEPSIZE, m_outside = b, m_coarse = 1, m_fine = 1\<rparr>)"
  using march_first [of 0 sdf cam ray 0 b] assms by simp

lemma csg1SDF_less_finite:
  assumes "csg1SDF p < c"
  shows "is_finite (vx p) \<and> is_finite (vy p) \<and> is_finite (vz p)"
proof -
  obtain x y z where p: "p = Vec3 x y z" by (cases p)
  have x: "is_finite x"
    using assms unfolding p by (cases x; cases y; cases z) (simp_all add: csg1SDF_def minus_fp_def)
  have y: "is_finite y"
    using assms unfolding p by (cases x; cases y; cases z) (simp_all add: csg1SDF_def minus_fp_def)
  have z: "is_finite z"
    using assms unfolding p by (cases x; cases y; cases z) (simp_all add: csg1SDF_def minus_fp_def)
  from x y z show ?thesis by (simp add: p)
qed

lemma is_finite_Num: "is_finite a \<Longrightarrow> \<exists>r. a = Num r"
  by (cases a) simp_all

lemma finite_step_back:
  assumes "is_finite (a - d * Num 0.1)"
  shows "is_finite a \<and> is_finite d"
  using assms by (cases a; cases d) (simp_all add: minus_fp_def)

text \<open>
  C1, as stated, fails. From the origin \<open>(1.58, 1.58, 1.58)\<close> along \<open>(0, 0, 1)\<close> the field is
  about \<open>-6.95\<close> at the first outer sample and about \<open>-6.85\<close> at the first inner sample: neither
  absolute value is below 0.001, and yet the marcher leaves the outer loop at the first and
  returns at the second (one evaluation in each loop), with \<open>-0.12\<close>. The test of the source is
  \<^verbatim>\<open>distance < 0.001\<close> on the signed value, in both loops.
\<close>

theorem coarse_abs_counterexample:
  "\<not> fabsf (csg1SDF (Vec3 (Num 1.58) (Num 1.58) (Num 1.58))) < Num 0.001 \<and>
   \<not> fabsf (csg1SDF (Vec3 (Num 1.58) (Num 1.58) (Num 1.48))) < Num 0.001 \<and>
   march csg1SDF (Vec3 (Num 1.58) (Num 1.58) (Num 1.58)) (Vec3 (Num 0) (Num 0) (Num 1)) False =
     (Num (- 0.12),
      \<lparr>m_t = Num (- 0.12), m_step = SMALLSTEPSIZE, m_outside = False, m_coarse = 1, m_fine = 1\<rparr>)"
proof -
  let ?cam = "Vec3 (Num 1.58) (Num 1.58) (Num 1.58)"
  let ?ray = "Vec3 (Num 0) (Num 0) (Num 1)"
  have a: "\<not> fabsf (csg1SDF ?cam) < Num 0.001"
    by (simp add: csg1SDF_Num)
  have a': "\<not> fabsf (csg1SDF (Vec3 (Num 1.58) (Num 1.58) (Num 1.48))) < Num 0.001"
    by (simp add: csg1SDF_Num)
  have b: "csg1SDF (vadd ?cam (vscale ?ray (Num 0))) < Num 0.001"
    by (simp add: sample_Num csg1SDF_Num)
  have c: "csg1SDF (vadd ?cam (vscale ?ray (Num (- 0.1)))) < Num 0.001"
    by (simp add: sample_Num csg1SDF_Num)
  from a a' march_first_sample [OF b c] show ?thesis by simp
qed

text \<open>
  C1, amended. The outer loop steps \<open>t\<close> back by 0.1 and enters the inner loop at the first
  sample whose signed field value is below 0.001, and advances \<open>t\<close> by 0.1 at every sample
  before it; the inner loop returns at the first of its at most 10 samples, 0.02 apart, whose
  signed field value is below 0.001, stepping back by 0.02. So when outer sample \<open>k < 700\<close> and
  then inner sample \<open>j < 10\<close> are the first to meet the test, the marcher has made \<open>k + 1\<close> and
  \<open>j + 1\<close> evaluations and returns \<open>0.1 k - 0.1 + 0.02 j - 0.02\<close>.
\<close>

theorem marcher_first_crossing:
  assumes "k < 700"
    and "\<forall>i<k. \<not> sdf (vadd cam (vscale ray (Num (real i * 0.1)))) < Num 0.001"
    and "sdf (vadd cam (vscale ray (Num (real k * 0.1)))) < Num 0.001"
    and "j < 10"
    and "\<forall>i<j. \<not> sdf (vadd cam (vscale ray (Num (real k * 0.1 - 0.1 + real i * 0.02)))) < Num 0.001"
    and "sdf (vadd cam (vscale ray (Num (real k * 0.1 - 0.1 + real j * 0.02)))) < Num 0.001"
  shows "march sdf cam ray b =
         (Num (real k * 0.1 - 0.1 + real j * 0.02 - 0.02),
          \<lparr>m_t = Num (real k * 0.1 - 0.1 + real j * 0.02 - 0.02), m_step = SMALLSTEPSIZE,
           m_outside = b, m_coarse = Suc k, m_fine = Suc j\<rparr>) \<and>
         (sdf = csg1SDF \<longrightarrow> csg1Raytrace cam ray maxdist b =
            (Num (real k * 0.1 - 0.1 + real j * 0.02 - 0.02), b)) \<and>
         (sdf = csg2SDF \<longrightarrow> csg2Raytrace cam ray maxdist b =
            (Num (real k * 0.1 - 0.1 + real j * 0.02 - 0.02), b))"
proof -
  note m = march_first [OF assms, of b]
  have "csg1Raytrace cam ray maxdist b = (Num (real k * 0.1 - 0.1 + real j * 0.02 - 0.02), b)"
    if "sdf = csg1SDF"
    using m unfolding that by (simp add: csg1Raytrace_def)
  moreover
  have "csg2Raytrace cam ray maxdist b = (Num (real k * 0.1 - 0.1 + real j * 0.02 - 0.02), b)"
    if "sdf = csg2SDF"
    using m unfolding that by (simp add: csg2Raytrace_def)
  ultimately show ?thesis using m by blast
qed

theorem marcher_first_crossing_witness:
  "csg1Raytrace (Vec3 (Num 1.58) (Num 0) (Num 1)) (Vec3 (Num 0) (Num 0) (Num 1)) (Num 100) True
     = (Num 0.28, True) \<and>
   m_coarse (snd (march csg1SDF (Vec3 (Num 1.58) (Num 0) (Num 1)) (Vec3 (Num 0) (Num 0) (Num 1)) True)) = 4 \<and>
   m_fine (snd (march csg1SDF (Vec3 (Num 1.58) (Num 0) (Num 1)) (Vec3 (Num 0) (Num 0) (Num 1)) True)) = 6"
proof -
  let ?cam = "Vec3 (Num 1.58) (Num 0) (Num 1)"
  let ?ray = "Vec3 (Num 0) (Num 0) (Num 1)"
  have 1: "(3::nat) < 700" by simp
  have 2: "\<forall>i<3::nat. \<not> csg1SDF (vadd ?cam (vscale ?ray (Num (real i * 0.1)))) < Num 0.001"
    by (simp add: sample_Num csg1SDF_Num eval_nat_numeral All_less_Suc)
  have 3: "csg1SDF (vadd ?cam (vscale ?ray (Num (real (3::nat) * 0.1)))) < Num 0.001"
    by (simp add: sample_Num csg1SDF_Num)
  have 4: "(5::nat) < 10" by simp
  have 5: "\<forall>i<5::nat. \<not> csg1SDF (vadd ?cam (vscale ?ray (Num (real (3::nat) * 0.1 - 0.1 + real i * 0.02)))) < Num 0.001"
    by (simp add: sample_Num csg1SDF_Num eval_nat_numeral All_less_Suc)
  have 6: "csg1SDF (vadd ?cam (vscale ?ray (Num (real (3::nat) * 0.1 - 0.1 + real (5::nat) * 0.02)))) < Num 0.001"
    by (simp add: sample_Num csg1SDF_Num)
  show ?thesis
    using marcher_first_crossing [OF 1 2 3 4 5 6, of True "Num 100"]
    by simp
qed

text \<open>
  C10. Whenever the field of \<^verbatim>\<open>csg1SDF\<close> is below 0.001 at the origin \<open>cam\<close> and at
  \<open>cam - 0.1 ray\<close>, \<^verbatim>\<open>csg1Raytrace\<close> returns \<open>-0.12\<close>, a negative parameter.
\<close>

theorem csg1_negative_parameter:
  assumes "csg1SDF cam < Num 0.001"
    and "csg1SDF (vsub cam (vscale ray (Num 0.1))) < Num 0.001"
  shows "csg1Raytrace cam ray maxdist b = (Num (- 0.12), b) \<and> Num (- 0.12) < Num 0"
proof -
  have "is_finite (vx cam - vx ray * Num 0.1) \<and> is_finite (vy cam - vy ray * Num 0.1)
          \<and> is_finite (vz cam - vz ray * Num 0.1)"
    using csg1SDF_less_finite [OF assms(2)] by (simp add: vsub_def vscale_def)
  then have fin: "is_finite (vx cam) \<and> is_finite (vx ray) \<and> is_finite (vy cam) \<and> is_finite (vy ray)
      \<and> is_finite (vz cam) \<and> is_finite (vz ray)"
    using finite_step_back by blast
  then obtain a1 a2 a3 d1 d2 d3
    where cam: "cam = Vec3 (Num a1) (Num a2) (Num a3)" and ray: "ray = Vec3 (Num d1) (Num d2) (Num d3)"
    by (cases cam; cases ray) (auto dest!: is_finite_Num)
  have p0: "vadd cam (vscale ray (Num 0)) = cam"
    by (simp add: cam ray sample_Num)
  have p1: "vadd cam (vscale ray (Num (- 0.1))) = vsub cam (vscale ray (Num 0.1))"
    by (simp add: cam ray vadd_def vsub_def vscale_def minus_Num)
  have "march csg1SDF cam ray b =
         (Num (- 0.12),
          \<lparr>m_t = Num (- 0.12), m_step = SMALLSTEPSIZE, m_outside = b, m_coarse = 1, m_fine = 1\<rparr>)"
    using assms by (intro march_first_sample) (simp_all only: p0 p1)
  then show ?thesis by (simp add: csg1Raytrace_def)
qed

theorem csg1_negative_parameter_witness:
  "csg1Raytrace (Vec3 (Num 1.58) (Num 1.58) (Num 1.58)) (Vec3 (Num 1) (Num 0) (Num 0)) (Num 100) True
     = (Num (- 0.12), True)"
proof -
  have a: "csg1SDF (Vec3 (Num 1.58) (Num 1.58) (Num 1.58)) < Num 0.001"
    by (simp add: csg1SDF_Num)
  have b: "csg1SDF (vsub (Vec3 (Num 1.58) (Num 1.58) (Num 1.58))
                      (vscale (Vec3 (Num 1) (Num 0) (Num 0)) (Num 0.1))) < Num 0.001"
    by (simp add: vsub_def vscale_def minus_Num csg1SDF_Num)
  from csg1_negative_parameter [OF a b] show ?thesis by simp
qed

subsection \<open>Wrappers, box and sphere\<close>

lemma csg1Raytrace_snd: "snd (csg1Raytrace c d m b) = b"
  by (simp add: csg1Raytrace_def march_def split_def Let_def coarse_loop_outside)

lemma csg2Raytrace_snd: "snd (csg2Raytrace c d m b) = b"
  by (simp add: csg2Raytrace_def march_def split_def Let_def coarse_loop_outside)

lemma csg1IntersectionTest_eq:
  "csg1IntersectionTest eps g r out =
     (let t = fst (csg1Raytrace (object_point g r) (object_direction g r) (Num 100) (outside out));
          objPt = vadd (object_point g r) (vscale (object_direction g r) t);
          n = glm_normalize (multiplyMV (invTranspose g) (vec4_of (getCsg1Normal eps objPt) (Num 0)))
      in (t, \<lparr>intersectionPoint = multiplyMV (transform g) (vec4_of objPt (Num 1)),
               normal = (if outside out then n else vneg n),
               outside = outside out\<rparr>))"
  by (cases out)
     (simp add: csg1IntersectionTest_def Let_def split_def object_point_def object_direction_def
        csg1Raytrace_snd)

lemma csg2IntersectionTest_eq:
  "csg2IntersectionTest eps g r out =
     (let t = fst (csg2Raytrace (object_point g r) (object_direction g r) (Num 100) (outside out));
          objPt = vadd (object_point g r) (vscale (object_direction g r) t);
          n = glm_normalize (multiplyMV (invTranspose g) (vec4_of (getCsg2Normal eps objPt) (Num 0)))
      in (t, \<lparr>intersectionPoint = multiplyMV (transform g) (vec4_of objPt (Num 1)),
               normal = (if outside out then n else vneg n),
               outside = outside out\<rparr>))"
  by (cases out)
     (simp add: csg2IntersectionTest_def Let_def split_def object_point_def object_direction_def
        csg2Raytrace_snd)

lemma vscale_zero_finite:
  assumes "vfinite d"
  shows "vadd p (vscale d (Num 0)) = p"
proof -
  have z: "x + y * Num 0 = x" if "is_finite y" for x y :: fp
    using that by (cases x; cases y) simp_all
  from assms show ?thesis
    by (cases p) (simp add: vfinite_def vadd_def vscale_def z)
qed

lemma boxIntersectionTest_miss:
  "\<not> box_hit g r \<Longrightarrow> boxIntersectionTest g r out = (Num (- 1), out)"
  by (auto simp add: boxIntersectionTest_def box_hit_def Let_def)

lemma boxIntersectionTest_hit:
  assumes "box_hit g r"
  shows "boxIntersectionTest g r out =
     (let q = object_ray g r;
          sl = slab_loop q;
          t = (if tmin sl \<le> Num 0 then tmax sl else tmin sl);
          n = (if tmin sl \<le> Num 0 then tmax_n sl else tmin_n sl);
          ip = multiplyMV (transform g) (vec4_of (getPointOnRay q t) (Num 1))
      in (glm_length (vsub (origin r) ip),
          \<lparr>intersectionPoint = ip,
           normal = glm_normalize (multiplyMV (transform g) (vec4_of n (Num 0))),
           outside = (\<not> tmin sl \<le> Num 0)\<rparr>))"
  using assms by (cases out) (simp add: boxIntersectionTest_def box_hit_def Let_def)

lemma sphereIntersectionTest_miss:
  "\<not> sphere_hit g r \<Longrightarrow> sphereIntersectionTest g r out = (Num (- 1), out)"
  by (auto simp add: sphereIntersectionTest_def sphere_hit_def Let_def)

lemma sphereIntersectionTest_hit:
  assumes "sphere_hit g r"
  shows "sphereIntersectionTest g r out =
     (let rt = object_ray g r;
          t1 = sphere_t1 rt;
          t2 = sphere_t2 rt;
          both = (t1 > Num 0 \<and> t2 > Num 0);
          t = (if both then fminf t1 t2 else fmaxf t1 t2);
          p = getPointOnRay rt t;
          ip = multiplyMV (transform g) (vec4_of p (Num 1));
          n = glm_normalize (multiplyMV (invTranspose g) (vec4_of p (Num 0)))
      in (glm_length (vsub (origin r) ip),
          \<lparr>intersectionPoint = ip,
           normal = (if both then n else vneg n),
           outside = both\<rparr>))"
  using assms by (cases out) (auto simp add: sphereIntersectionTest_def sphere_hit_def Let_def)

text \<open>
  C2. When the box test or the sphere test reports a hit, the point it writes is the
  world-space image, under the transform of the placement, of the object-space point of the
  ray at the parameter chosen, and the value it returns is the length of the vector from the
  origin of the world-space ray to that world-space point; on a miss it returns \<open>-1\<close> and
  writes nothing. The tests of the implicit surfaces return the parameter \<open>t\<close> of the marcher
  as it is, the parameter of the object-space ray at which they place the point they write;
  so they return 0 when the marcher finds no sample to stop at.
\<close>

theorem returned_distance:
  "(box_hit g r \<longrightarrow>
      intersectionPoint (snd (boxIntersectionTest g r out)) =
        multiplyMV (transform g)
          (vec4_of (getPointOnRay (object_ray g r) (box_t g r)) (Num 1)) \<and>
      fst (boxIntersectionTest g r out) =
        glm_length (vsub (origin r)
          (multiplyMV (transform g)
             (vec4_of (getPointOnRay (object_ray g r) (box_t g r)) (Num 1))))) \<and>
   (\<not> box_hit g r \<longrightarrow> boxIntersectionTest g r out = (Num (- 1), out)) \<and>
   (sphere_hit g r \<longrightarrow>
      intersectionPoint (snd (sphereIntersectionTest g r out)) =
        multiplyMV (transform g)
          (vec4_of (getPointOnRay (object_ray g r) (sphere_t g r)) (Num 1)) \<and>
      fst (sphereIntersectionTest g r out) =
        glm_length (vsub (origin r)
          (multiplyMV (transform g)
             (vec4_of (getPointOnRay (object_ray g r) (sphere_t g r)) (Num 1))))) \<and>
   (\<not> sphere_hit g r \<longrightarrow> sphereIntersectionTest g r out = (Num (- 1), out)) \<and>
   fst (csg1IntersectionTest eps g r out) =
     fst (csg1Raytrace (object_point g r) (object_direction g r) (Num 100) (outside out)) \<and>
   intersectionPoint (snd (csg1IntersectionTest eps g r out)) =
     multiplyMV (transform g)
       (vec4_of (vadd (object_point g r)
                   (vscale (object_direction g r) (fst (csg1IntersectionTest eps g r out))))
          (Num 1)) \<and>
   fst (csg2IntersectionTest eps g r out) =
     fst (csg2Raytrace (object_point g r) (object_direction g r) (Num 100) (outside out)) \<and>
   intersectionPoint (snd (csg2IntersectionTest eps g r out)) =
     multiplyMV (transform g)
       (vec4_of (vadd (object_point g r)
                   (vscale (object_direction g r) (fst (csg2IntersectionTest eps g r out))))
          (Num 1)) \<and>
   ((\<forall>i<700. \<not> csg1SDF (vadd (object_point g r)
                  (vscale (object_direction g r) (Num (real i * 0.1)))) < Num 0.001) \<longrightarrow>
      fst (csg1IntersectionTest eps g r out) = Num 0) \<and>
   ((\<forall>i<700. \<not> csg2SDF (vadd (object_point g r)
                  (vscale (object_direction g r) (Num (real i * 0.1)))) < Num 0.001) \<longrightarrow>
      fst (csg2IntersectionTest eps g r out) = Num 0)"
proof -
  let ?bp = "multiplyMV (transform g)
          (vec4_of (getPointOnRay (object_ray g r) (box_t g r)) (Num 1))"
  let ?sp = "multiplyMV (transform g)
          (vec4_of (getPointOnRay (object_ray g r) (sphere_t g r)) (Num 1))"
  have b1: "intersectionPoint (snd (boxIntersectionTest g r out)) = ?bp \<and>
      fst (boxIntersectionTest g r out) = glm_length (vsub (origin r) ?bp)"
    if "box_hit g r"
    by (simp add: boxIntersectionTest_hit [OF that] Let_def box_t_def)
  have b2: "boxIntersectionTest g r out = (Num (- 1), out)" if "\<not> box_hit g r"
    by (rule boxIntersectionTest_miss [OF that])
  have s1: "intersectionPoint (snd (sphereIntersectionTest g r out)) = ?sp \<and>
      fst (sphereIntersectionTest g r out) = glm_length (vsub (origin r) ?sp)"
    if "sphere_hit g r"
    by (simp add: sphereIntersectionTest_hit [OF that] Let_def sphere_t_def)
  have s2: "sphereIntersectionTest g r out = (Num (- 1), out)" if "\<not> sphere_hit g r"
    by (rule sphereIntersectionTest_miss [OF that])
  have c1: "fst (csg1IntersectionTest eps g r out) =
       fst (csg1Raytrace (object_point g r) (object_direction g r) (Num 100) (outside out)) \<and>
     intersectionPoint (snd (csg1IntersectionTest eps g r out)) =
       multiplyMV (transform g)
         (vec4_of (vadd (object_point g r)
                     (vscale (object_direction g r) (fst (csg1IntersectionTest eps g r out))))
            (Num 1))"
    by (simp add: csg1IntersectionTest_eq Let_def)
  have c2: "fst (csg2IntersectionTest eps g r out) =
       fst (csg2Raytrace (object_point g r) (object_direction g r) (Num 100) (outside out)) \<and>
     intersectionPoint (snd (csg2IntersectionTest eps g r out)) =
       multiplyMV (transform g)
         (vec4_of (vadd (object_point g r)
                     (vscale (object_direction g r) (fst (csg2IntersectionTest eps g r out))))
            (Num 1))"
    by (simp add: csg2IntersectionTest_eq Let_def)
  have m1: "fst (csg1IntersectionTest eps g r out) = Num 0"
    if "\<forall>i<700. \<not> csg1SDF (vadd (object_point g r)
                  (vscale (object_direction g r) (Num (real i * 0.1)))) < Num 0.001"
    using march_exhaust [OF that, of "outside out"] c1
    by (simp add: csg1Raytrace_def split_def Let_def)
  have m2: "fst (csg2IntersectionTest eps g r out) = Num 0"
    if "\<forall>i<700. \<not> csg2SDF (vadd (object_point g r)
                  (vscale (object_direction g r) (Num (real i * 0.1)))) < Num 0.001"
    using march_exhaust [OF that, of "outside out"] c2
    by (simp add: csg2Raytrace_def split_def Let_def)
  from b1 b2 s1 s2 c1 c2 m1 m2 show ?thesis by blast
qed

text \<open>
  C3. Once the radicand is not below zero, the sphere test reports no intersection when both
  roots are negative; takes the smaller root and sets \<^verbatim>\<open>outside\<close> to true when both are
  positive; and otherwise takes the larger root and sets \<^verbatim>\<open>outside\<close> to false. The normal is
  the normalised image of the object-space point under the inverse transpose, negated exactly
  when \<^verbatim>\<open>outside\<close> is false.
\<close>

theorem sphere_root_selection:
  assumes "\<not> sphere_radicand (object_ray g r) < Num 0"
  shows "(let rt = object_ray g r; t1 = sphere_t1 rt; t2 = sphere_t2 rt;
              res = sphereIntersectionTest g r out
          in (t1 < Num 0 \<and> t2 < Num 0 \<longrightarrow> res = (Num (- 1), out)) \<and>
             (\<not> (t1 < Num 0 \<and> t2 < Num 0) \<and> t1 > Num 0 \<and> t2 > Num 0 \<longrightarrow>
                outside (snd res) = True \<and>
                intersectionPoint (snd res) =
                  multiplyMV (transform g) (vec4_of (getPointOnRay rt (fminf t1 t2)) (Num 1)) \<and>
                normal (snd res) =
                  glm_normalize (multiplyMV (invTranspose g)
                                   (vec4_of (getPointOnRay rt (fminf t1 t2)) (Num 0))) \<and>
                (fminf t1 t2 \<le> t1 \<and> fminf t1 t2 \<le> t2)) \<and>
             (\<not> (t1 < Num 0 \<and> t2 < Num 0) \<and> \<not> (t1 > Num 0 \<and> t2 > Num 0) \<longrightarrow>
                outside (snd res) = False \<and>
                intersectionPoint (snd res) =
                  multiplyMV (transform g) (vec4_of (getPointOnRay rt (fmaxf t1 t2)) (Num 1)) \<and>
                normal (snd res) =
                  vneg (glm_normalize (multiplyMV (invTranspose g)
                                         (vec4_of (getPointOnRay rt (fmaxf t1 t2)) (Num 0))))))"
proof -
  let ?rt = "object_ray g r"
  let ?t1 = "sphere_t1 ?rt"
  let ?t2 = "sphere_t2 ?rt"
  have m: "fminf a b \<le> a \<and> fminf a b \<le> b" if "a > Num 0" "b > Num 0" for a b
    using that by (cases a; cases b) (simp_all add: fminf_def)
  have miss: "sphereIntersectionTest g r out = (Num (- 1), out)" if "?t1 < Num 0 \<and> ?t2 < Num 0"
    using that by (intro sphereIntersectionTest_miss) (simp add: sphere_hit_def Let_def)
  have hit: "sphere_hit g r" if "\<not> (?t1 < Num 0 \<and> ?t2 < Num 0)"
    using that assms by (simp add: sphere_hit_def Let_def)
  have both: "outside (snd (sphereIntersectionTest g r out)) = True \<and>
      intersectionPoint (snd (sphereIntersectionTest g r out)) =
        multiplyMV (transform g) (vec4_of (getPointOnRay ?rt (fminf ?t1 ?t2)) (Num 1)) \<and>
      normal (snd (sphereIntersectionTest g r out)) =
        glm_normalize (multiplyMV (invTranspose g)
                         (vec4_of (getPointOnRay ?rt (fminf ?t1 ?t2)) (Num 0))) \<and>
      (fminf ?t1 ?t2 \<le> ?t1 \<and> fminf ?t1 ?t2 \<le> ?t2)"
    if "\<not> (?t1 < Num 0 \<and> ?t2 < Num 0)" and "?t1 > Num 0 \<and> ?t2 > Num 0"
    using that(2) by (simp add: sphereIntersectionTest_hit [OF hit [OF that(1)]] Let_def m)
  have other: "outside (snd (sphereIntersectionTest g r out)) = False \<and>
      intersectionPoint (snd (sphereIntersectionTest g r out)) =
        multiplyMV (transform g) (vec4_of (getPointOnRay ?rt (fmaxf ?t1 ?t2)) (Num 1)) \<and>
      normal (snd (sphereIntersectionTest g r out)) =
        vneg (glm_normalize (multiplyMV (invTranspose g)
                               (vec4_of (getPointOnRay ?rt (fmaxf ?t1 ?t2)) (Num 0))))"
    if "\<not> (?t1 < Num 0 \<and> ?t2 < Num 0)" and "\<not> (?t1 > Num 0 \<and> ?t2 > Num 0)"
    unfolding sphereIntersectionTest_hit [OF hit [OF that(1)]] Let_def if_not_P [OF that(2)]
    using that(2) by simp
  show ?thesis
    unfolding Let_def using miss both other by blast
qed


lemma identity_point: "multiplyMV mat4_identity (vec4_of (Vec3 (Num a) (Num b) (Num c)) (Num w)) = Vec3 (Num a) (Num b) (Num c)"
  by (simp add: mat4_identity_def vec4_of_def)

lemma normalize_axis_z: "glm_normalize (Vec3 (Num 0) (Num 0) (Num 1)) = Vec3 (Num 0) (Num 0) (Num 1)"
  by (simp add: glm_normalize_def glm_dot_def vscale_def)

lemma normalize_axis_z_neg: "glm_normalize (Vec3 (Num 0) (Num 0) (Num (- 1))) = Vec3 (Num 0) (Num 0) (Num (- 1))"
  by (simp add: glm_normalize_def glm_dot_def vscale_def)

lemma box_example_ray:
  "object_ray unit_geom \<lparr>origin = Vec3 (Num 0) (Num 0) (Num (- 2)), direction = Vec3 (Num 0) (Num 0) (Num 1)\<rparr>
   = \<lparr>origin = Vec3 (Num 0) (Num 0) (Num (- 2)), direction = Vec3 (Num 0) (Num 0) (Num 1)\<rparr>"
  by (simp add: object_ray_def unit_geom_def identity_point normalize_axis_z)

lemma box_example_slabs:
  "slab_loop \<lparr>origin = Vec3 (Num 0) (Num 0) (Num (- 2)), direction = Vec3 (Num 0) (Num 0) (Num 1)\<rparr>
   = \<lparr>tmin = Num 1.5, tmax = Num 2.5,
      tmin_n = Vec3 (Num 0) (Num 0) (Num (- 1)), tmax_n = Vec3 (Num 0) (Num 0) (Num (- 1))\<rparr>"
  by (simp add: slab_loop_def slab_axis_def slab_init_def vidx_def vset_def glm_min_def glm_max_def
      minus_Num vec3_default_def Let_def)

lemma box_example_hit:
  "box_hit unit_geom \<lparr>origin = Vec3 (Num 0) (Num 0) (Num (- 2)), direction = Vec3 (Num 0) (Num 0) (Num 1)\<rparr>"
  by (simp add: box_hit_def box_example_ray box_example_slabs)

lemma box_example:
  "boxIntersectionTest unit_geom
     \<lparr>origin = Vec3 (Num 0) (Num 0) (Num (- 2)), direction = Vec3 (Num 0) (Num 0) (Num 1)\<rparr> out =
   (Num 1.4999,
    \<lparr>intersectionPoint = Vec3 (Num 0) (Num 0) (Num (- 0.5001)),
     normal = Vec3 (Num 0) (Num 0) (Num (- 1)),
     outside = True\<rparr>)"
proof -
  have s: "sqrt (22497000100 / 10 ^ 10) = 14999 / 10 ^ 4"
    by (rule real_sqrt_unique) (simp_all add: power2_eq_square)
  have p: "getPointOnRay \<lparr>origin = Vec3 (Num 0) (Num 0) (Num (- 2)), direction = Vec3 (Num 0) (Num 0) (Num 1)\<rparr> (Num 1.5)
           = Vec3 (Num 0) (Num 0) (Num (- 0.5001))"
    by (simp add: getPointOnRay_def normalize_axis_z vadd_def vscale_def minus_Num)
  have l: "glm_length (vsub (Vec3 (Num 0) (Num 0) (Num (- 2))) (Vec3 (Num 0) (Num 0) (Num (- 0.5001)))) = Num 1.4999"
    using s by (simp add: glm_length_def glm_dot_def vsub_def minus_Num)
  have t: "transform unit_geom = mat4_identity"
    by (simp add: unit_geom_def)
  show ?thesis
    using p l
    by (simp add: boxIntersectionTest_hit [OF box_example_hit] Let_def box_example_ray
        box_example_slabs t identity_point normalize_axis_z_neg)
qed


lemma less_not_nan: "a < b \<Longrightarrow> \<not> is_nan a \<and> \<not> is_nan b \<and> a \<noteq> PInf"
  for a b :: fp
  by (cases a; cases b) simp_all

lemma slab_axis_ok: "slab_ok sl \<Longrightarrow> slab_ok (slab_axis q i sl)"
  by (auto simp add: slab_ok_def slab_axis_def Let_def dest: less_not_nan)

lemma slab_init_ok: "slab_ok slab_init"
  by (simp add: slab_ok_def slab_init_def)

lemma slab_loop_ok: "slab_ok (slab_loop q)"
  by (simp add: slab_loop_def slab_axis_ok slab_init_ok)

lemma not_le_fp: "\<not> is_nan a \<Longrightarrow> \<not> is_nan b \<Longrightarrow> (\<not> a \<le> b) = (b < a)"
  for a b :: fp
  by (cases a; cases b) auto

lemma not_less_fp: "\<not> is_nan a \<Longrightarrow> \<not> is_nan b \<Longrightarrow> (\<not> a < b) = (b \<le> a)"
  for a b :: fp
  by (cases a; cases b) auto

lemma fsqrt_not_minus_one: "fsqrt a \<noteq> Num (- 1)"
proof (cases a)
  case (Num x)
  have "sqrt x \<noteq> - 1" if "0 \<le> x"
    using real_sqrt_ge_zero [OF that] by linarith
  with Num show ?thesis by simp
qed simp_all

lemma box_hit_iff:
  "box_hit g r =
     (\<not> (tmax (slab_loop (object_ray g r)) < tmin (slab_loop (object_ray g r))
          \<or> tmax (slab_loop (object_ray g r)) \<le> Num 0))"
proof -
  have ok: "slab_ok (slab_loop (object_ray g r))" by (rule slab_loop_ok)
  then have 1: "(\<not> tmin (slab_loop (object_ray g r)) \<le> tmax (slab_loop (object_ray g r)))
        = (tmax (slab_loop (object_ray g r)) < tmin (slab_loop (object_ray g r)))"
    by (intro not_le_fp) (simp_all add: slab_ok_def)
  from ok have 2: "(\<not> Num 0 < tmax (slab_loop (object_ray g r)))
        = (tmax (slab_loop (object_ray g r)) \<le> Num 0)"
    by (intro not_less_fp) (simp_all add: slab_ok_def)
  from 1 2 show ?thesis by (auto simp add: box_hit_def Let_def)
qed

text \<open>
  C4. After the loop over the three axes the box test returns \<open>-1\<close> exactly when
  \<open>tmax < tmin\<close> or \<open>tmax \<le> 0\<close>, and then writes nothing. Otherwise \<^verbatim>\<open>outside\<close> is true
  unless \<open>tmin \<le> 0\<close>, in which case the test uses \<open>tmax\<close> and the normal recorded with it and
  sets \<^verbatim>\<open>outside\<close> to false.
\<close>

theorem box_decision:
  "(let q = object_ray g r; sl = slab_loop q; res = boxIntersectionTest g r out
    in (fst res = Num (- 1)) = (tmax sl < tmin sl \<or> tmax sl \<le> Num 0) \<and>
       (tmax sl < tmin sl \<or> tmax sl \<le> Num 0 \<longrightarrow> snd res = out) \<and>
       (\<not> (tmax sl < tmin sl \<or> tmax sl \<le> Num 0) \<longrightarrow>
          outside (snd res) = (\<not> tmin sl \<le> Num 0) \<and>
          intersectionPoint (snd res) =
            multiplyMV (transform g)
              (vec4_of (getPointOnRay q (if tmin sl \<le> Num 0 then tmax sl else tmin sl)) (Num 1)) \<and>
          normal (snd res) =
            glm_normalize (multiplyMV (transform g)
              (vec4_of (if tmin sl \<le> Num 0 then tmax_n sl else tmin_n sl) (Num 0)))))"
proof (cases "box_hit g r")
  case True
  then have n: "\<not> (tmax (slab_loop (object_ray g r)) < tmin (slab_loop (object_ray g r))
          \<or> tmax (slab_loop (object_ray g r)) \<le> Num 0)"
    by (simp add: box_hit_iff)
  show ?thesis
    unfolding Let_def boxIntersectionTest_hit [OF True] using n
    by (simp add: glm_length_def fsqrt_not_minus_one)
next
  case False
  then have n: "tmax (slab_loop (object_ray g r)) < tmin (slab_loop (object_ray g r))
          \<or> tmax (slab_loop (object_ray g r)) \<le> Num 0"
    by (simp add: box_hit_iff)
  show ?thesis
    unfolding Let_def boxIntersectionTest_miss [OF False] using n by simp
qed


lemma not_less_NInf: "\<not> a < NInf" for a :: fp
  by (cases a) simp_all

lemma not_PInf_less: "\<not> PInf < a" for a :: fp
  by (cases a) simp_all

lemma slab_axis_dead: "slab_dead sl \<Longrightarrow> slab_dead (slab_axis q i sl)"
  unfolding slab_dead_def
proof (elim conjE disjE)
  assume ok: "slab_ok sl" and t: "tmax sl = NInf"
  have "tmax (slab_axis q i sl) = NInf"
    using t by (simp add: slab_axis_def Let_def not_less_NInf)
  with slab_axis_ok [OF ok] show "slab_ok (slab_axis q i sl) \<and>
      (tmax (slab_axis q i sl) = NInf \<or> tmin (slab_axis q i sl) = PInf)" by simp
next
  assume ok: "slab_ok sl" and t: "tmin sl = PInf"
  have "tmin (slab_axis q i sl) = PInf"
    using t by (simp add: slab_axis_def Let_def not_PInf_less)
  with slab_axis_ok [OF ok] show "slab_ok (slab_axis q i sl) \<and>
      (tmax (slab_axis q i sl) = NInf \<or> tmin (slab_axis q i sl) = PInf)" by simp
qed

lemma NInf_less: "\<not> is_nan a \<Longrightarrow> a \<noteq> NInf \<Longrightarrow> NInf < a" for a :: fp
  by (cases a) simp_all

lemma less_PInf: "\<not> is_nan a \<Longrightarrow> a \<noteq> PInf \<Longrightarrow> a < PInf" for a :: fp
  by (cases a) simp_all

lemma slab_axis_zero_inside:
  assumes "vidx (direction q) xyz = Num 0" and "vidx (origin q) xyz = Num c"
    and "- 0.5 \<le> c" and "c < 0.5"
  shows "slab_axis q xyz sl = sl"
  using assms(3,4)
  by (cases "c = - 0.5")
     (simp_all add: slab_axis_def assms(1,2) Let_def minus_Num glm_min_def glm_max_def not_PInf_less)

lemma slab_axis_zero_outside:
  assumes "vidx (direction q) xyz = Num 0" and "vidx (origin q) xyz = Num c"
    and "c < - 0.5 \<or> 0.5 \<le> c" and "slab_ok sl"
  shows "slab_dead (slab_axis q xyz sl)"
proof -
  from assms(3) consider "c < - 0.5" | "c = 0.5" | "0.5 < c" by linarith
  then have "tmax (slab_axis q xyz sl) = NInf \<or> tmin (slab_axis q xyz sl) = PInf"
  proof cases
    case 1
    have "tmin (slab_axis q xyz sl) = PInf"
      using 1 assms(4) less_PInf [of "tmin sl"]
      by (cases "tmin sl = PInf")
         (simp_all add: slab_axis_def assms(1,2) Let_def minus_Num glm_min_def glm_max_def
            not_PInf_less slab_ok_def)
    then show ?thesis by simp
  next
    case 2
    have "tmax (slab_axis q xyz sl) = NInf"
      using 2 assms(4) NInf_less [of "tmax sl"]
      by (cases "tmax sl = NInf")
         (simp_all add: slab_axis_def assms(1,2) Let_def minus_Num glm_min_def glm_max_def
            not_less_NInf slab_ok_def)
    then show ?thesis by simp
  next
    case 3
    have "tmax (slab_axis q xyz sl) = NInf"
      using 3 assms(4) NInf_less [of "tmax sl"]
      by (cases "tmax sl = NInf")
         (simp_all add: slab_axis_def assms(1,2) Let_def minus_Num glm_min_def glm_max_def
            not_less_NInf slab_ok_def)
    then show ?thesis by simp
  qed
  with slab_axis_ok [OF assms(4)] show ?thesis by (simp add: slab_dead_def)
qed

lemma slab_loop_dead:
  assumes "xyz < 3" and "vidx (direction q) xyz = Num 0" and "vidx (origin q) xyz = Num c"
    and "c < - 0.5 \<or> 0.5 \<le> c"
  shows "slab_dead (slab_loop q)"
proof -
  from assms(1) consider "xyz = 0" | "xyz = 1" | "xyz = 2" by linarith
  then show ?thesis
  proof cases
    case 1
    have "slab_dead (slab_axis q 0 slab_init)"
      using assms(2,3) unfolding 1 by (intro slab_axis_zero_outside [OF _ _ assms(4)] slab_init_ok)
    then show ?thesis by (simp add: slab_loop_def slab_axis_dead)
  next
    case 2
    have "slab_dead (slab_axis q 1 (slab_axis q 0 slab_init))"
      using assms(2,3) unfolding 2
      by (intro slab_axis_zero_outside [OF _ _ assms(4)] slab_axis_ok slab_init_ok)
    then show ?thesis by (simp add: slab_loop_def slab_axis_dead)
  next
    case 3
    have "slab_dead (slab_axis q 2 (slab_axis q 1 (slab_axis q 0 slab_init)))"
      using assms(2,3) unfolding 3
      by (intro slab_axis_zero_outside [OF _ _ assms(4)] slab_axis_ok slab_init_ok)
    then show ?thesis by (simp add: slab_loop_def)
  qed
qed

lemma slab_dead_miss:
  assumes "slab_dead (slab_loop (object_ray g r))"
  shows "\<not> box_hit g r"
proof -
  have "\<not> PInf \<le> a" if "\<not> is_nan a" "a \<noteq> PInf" for a :: fp
    using that by (cases a) simp_all
  with assms show ?thesis
    by (auto simp add: slab_dead_def slab_ok_def box_hit_def Let_def)
qed

lemma zero_quotient_not_finite: "\<not> is_finite (a / Num 0)"
  by (cases a) simp_all

text \<open>
  C8. The loop divides by the direction component on every axis, with no test of it. Where
  that component is zero (and the origin component finite) neither quotient is finite. If the
  origin lies within the slab of that axis, the axis leaves the interval as it was; if it lies
  outside, the interval becomes empty through the infinite quotients and the test reports a
  miss.
\<close>

theorem box_axis_parallel:
  assumes "xyz < 3"
    and "vidx (direction (object_ray g r)) xyz = Num 0"
    and "vidx (origin (object_ray g r)) xyz = Num c"
  shows "\<not> is_finite ((Num (- 0.5) - vidx (origin (object_ray g r)) xyz)
                        / vidx (direction (object_ray g r)) xyz) \<and>
         \<not> is_finite ((Num 0.5 - vidx (origin (object_ray g r)) xyz)
                        / vidx (direction (object_ray g r)) xyz) \<and>
         (- 0.5 \<le> c \<and> c < 0.5 \<longrightarrow> slab_axis (object_ray g r) xyz sl = sl) \<and>
         (c < - 0.5 \<or> 0.5 \<le> c \<longrightarrow> boxIntersectionTest g r out = (Num (- 1), out))"
proof -
  have a: "slab_axis (object_ray g r) xyz sl = sl" if "- 0.5 \<le> c \<and> c < 0.5"
    using that by (intro slab_axis_zero_inside [OF assms(2,3)]) simp_all
  have b: "boxIntersectionTest g r out = (Num (- 1), out)" if "c < - 0.5 \<or> 0.5 \<le> c"
    by (intro boxIntersectionTest_miss slab_dead_miss slab_loop_dead [OF assms that])
  from a b show ?thesis
    by (simp add: assms(2) zero_quotient_not_finite)
qed

text \<open>
  C9. When the marcher returns 0, the tests of the implicit surfaces still write both
  outputs: the intersection point is the transform of \<open>pt + 0 dir\<close>, which is the
  object-space origin \<open>pt\<close> when the object-space direction is finite, and the normal is the
  normalised image of the gradient there under the inverse transpose, negated when the
  caller's \<^verbatim>\<open>outside\<close> is false. The value returned is 0.
\<close>

theorem csg_miss_overwrites:
  "(fst (csg1Raytrace (object_point g r) (object_direction g r) (Num 100) (outside out)) = Num 0 \<longrightarrow>
      fst (csg1IntersectionTest eps g r out) = Num 0 \<and>
      intersectionPoint (snd (csg1IntersectionTest eps g r out)) =
        multiplyMV (transform g)
          (vec4_of (vadd (object_point g r) (vscale (object_direction g r) (Num 0))) (Num 1)) \<and>
      normal (snd (csg1IntersectionTest eps g r out)) =
        (let n = glm_normalize (multiplyMV (invTranspose g)
                   (vec4_of (getCsg1Normal eps
                      (vadd (object_point g r) (vscale (object_direction g r) (Num 0)))) (Num 0)))
         in if outside out then n else vneg n) \<and>
      outside (snd (csg1IntersectionTest eps g r out)) = outside out) \<and>
   (fst (csg2Raytrace (object_point g r) (object_direction g r) (Num 100) (outside out)) = Num 0 \<longrightarrow>
      fst (csg2IntersectionTest eps g r out) = Num 0 \<and>
      intersectionPoint (snd (csg2IntersectionTest eps g r out)) =
        multiplyMV (transform g)
          (vec4_of (vadd (object_point g r) (vscale (object_direction g r) (Num 0))) (Num 1)) \<and>
      normal (snd (csg2IntersectionTest eps g r out)) =
        (let n = glm_normalize (multiplyMV (invTranspose g)
                   (vec4_of (getCsg2Normal eps
                      (vadd (object_point g r) (vscale (object_direction g r) (Num 0)))) (Num 0)))
         in if outside out then n else vneg n) \<and>
      outside (snd (csg2IntersectionTest eps g r out)) = outside out) \<and>
   (vfinite (object_direction g r) \<longrightarrow>
      vadd (object_point g r) (vscale (object_direction g r) (Num 0)) = object_point g r)"
proof -
  have 1: "fst (csg1IntersectionTest eps g r out) = Num 0 \<and>
      intersectionPoint (snd (csg1IntersectionTest eps g r out)) =
        multiplyMV (transform g)
          (vec4_of (vadd (object_point g r) (vscale (object_direction g r) (Num 0))) (Num 1)) \<and>
      normal (snd (csg1IntersectionTest eps g r out)) =
        (let n = glm_normalize (multiplyMV (invTranspose g)
                   (vec4_of (getCsg1Normal eps
                      (vadd (object_point g r) (vscale (object_direction g r) (Num 0)))) (Num 0)))
         in if outside out then n else vneg n) \<and>
      outside (snd (csg1IntersectionTest eps g r out)) = outside out"
    if "fst (csg1Raytrace (object_point g r) (object_direction g r) (Num 100) (outside out)) = Num 0"
    unfolding csg1IntersectionTest_eq Let_def that by simp
  have 2: "fst (csg2IntersectionTest eps g r out) = Num 0 \<and>
      intersectionPoint (snd (csg2IntersectionTest eps g r out)) =
        multiplyMV (transform g)
          (vec4_of (vadd (object_point g r) (vscale (object_direction g r) (Num 0))) (Num 1)) \<and>
      normal (snd (csg2IntersectionTest eps g r out)) =
        (let n = glm_normalize (multiplyMV (invTranspose g)
                   (vec4_of (getCsg2Normal eps
                      (vadd (object_point g r) (vscale (object_direction g r) (Num 0)))) (Num 0)))
         in if outside out then n else vneg n) \<and>
      outside (snd (csg2IntersectionTest eps g r out)) = outside out"
    if "fst (csg2Raytrace (object_point g r) (object_direction g r) (Num 100) (outside out)) = Num 0"
    unfolding csg2IntersectionTest_eq Let_def that by simp
  from 1 2 vscale_zero_finite [of "object_direction g r" "object_point g r"]
  show ?thesis by blast
qed


lemma normalize_axis_y: "glm_normalize (Vec3 (Num 0) (Num 1) (Num 0)) = Vec3 (Num 0) (Num 1) (Num 0)"
  by (simp add: glm_normalize_def glm_dot_def vscale_def)

theorem csg_miss_overwrites_witness:
  "fst (csg1IntersectionTest (Num 0.00001) unit_geom
          \<lparr>origin = Vec3 (Num 1) (Num 0) (Num 0), direction = Vec3 (Num 0) (Num 1) (Num 0)\<rparr>
          \<lparr>intersectionPoint = Vec3 (Num 9) (Num 9) (Num 9), normal = Vec3 (Num 9) (Num 9) (Num 9),
           outside = True\<rparr>) = Num 0 \<and>
   intersectionPoint (snd (csg1IntersectionTest (Num 0.00001) unit_geom
          \<lparr>origin = Vec3 (Num 1) (Num 0) (Num 0), direction = Vec3 (Num 0) (Num 1) (Num 0)\<rparr>
          \<lparr>intersectionPoint = Vec3 (Num 9) (Num 9) (Num 9), normal = Vec3 (Num 9) (Num 9) (Num 9),
           outside = True\<rparr>)) = Vec3 (Num 1) (Num 0) (Num 0)"
proof -
  let ?r = "\<lparr>origin = Vec3 (Num 1) (Num 0) (Num 0), direction = Vec3 (Num 0) (Num 1) (Num 0)\<rparr>"
  let ?out = "\<lparr>intersectionPoint = Vec3 (Num 9) (Num 9) (Num 9), normal = Vec3 (Num 9) (Num 9) (Num 9),
           outside = True\<rparr>"
  have p: "object_point unit_geom ?r = Vec3 (Num 1) (Num 0) (Num 0)"
    by (simp add: object_point_def unit_geom_def identity_point)
  have d: "object_direction unit_geom ?r = Vec3 (Num 0) (Num 1) (Num 0)"
    by (simp add: object_direction_def unit_geom_def identity_point)
  have t: "transform unit_geom = mat4_identity"
    by (simp add: unit_geom_def)
  have "\<forall>i<700. \<not> csg1SDF (vadd (Vec3 (Num 1) (Num 0) (Num 0))
                     (vscale (Vec3 (Num 0) (Num 1) (Num 0)) (Num (real i * 0.1)))) < Num 0.001"
    by (simp only: csg1SDF_beside_axis) simp
  then have m: "fst (csg1Raytrace (object_point unit_geom ?r) (object_direction unit_geom ?r)
                  (Num 100) (outside ?out)) = Num 0"
    unfolding p d by (simp add: csg1Raytrace_def split_def Let_def march_exhaust)
  have f: "vfinite (object_direction unit_geom ?r)"
    by (simp add: d vfinite_def)
  from csg_miss_overwrites [of unit_geom ?r ?out "Num 0.00001"] m f
  show ?thesis by (simp add: p t identity_point)
qed

lemma sqrt_quarter: "sqrt (1 / 4) = 1 / 2"
  by (rule real_sqrt_unique) (simp_all add: power2_eq_square)

lemma sphere_axis_ray:
  "object_ray unit_geom \<lparr>origin = Vec3 (Num 0) (Num 0) (Num c), direction = Vec3 (Num 0) (Num 0) (Num 1)\<rparr>
   = \<lparr>origin = Vec3 (Num 0) (Num 0) (Num c), direction = Vec3 (Num 0) (Num 0) (Num 1)\<rparr>"
  by (simp add: object_ray_def unit_geom_def identity_point normalize_axis_z)

lemma sphere_axis_radicand:
  "sphere_radicand \<lparr>origin = Vec3 (Num 0) (Num 0) (Num c), direction = Vec3 (Num 0) (Num 0) (Num 1)\<rparr>
   = Num 0.25"
  by (simp add: sphere_radicand_def glm_dot_def powf_2_def minus_Num Let_def)

lemma sphere_axis_roots:
  "sphere_t1 \<lparr>origin = Vec3 (Num 0) (Num 0) (Num c), direction = Vec3 (Num 0) (Num 0) (Num 1)\<rparr>
     = Num (- c + 0.5) \<and>
   sphere_t2 \<lparr>origin = Vec3 (Num 0) (Num 0) (Num c), direction = Vec3 (Num 0) (Num 0) (Num 1)\<rparr>
     = Num (- c - 0.5)"
  using sqrt_quarter
  by (simp add: sphere_t1_def sphere_t2_def sphere_axis_radicand glm_dot_def minus_Num Let_def)

lemma sphere_axis_point:
  "getPointOnRay \<lparr>origin = Vec3 (Num 0) (Num 0) (Num c), direction = Vec3 (Num 0) (Num 0) (Num 1)\<rparr> (Num t)
   = Vec3 (Num 0) (Num 0) (Num (c + (t - 0.0001)))"
  by (simp add: getPointOnRay_def normalize_axis_z vadd_def vscale_def minus_Num)

theorem sphere_root_selection_witness:
  "outside (snd (sphereIntersectionTest unit_geom
      \<lparr>origin = Vec3 (Num 0) (Num 0) (Num 0), direction = Vec3 (Num 0) (Num 0) (Num 1)\<rparr>
      \<lparr>intersectionPoint = Vec3 (Num 9) (Num 9) (Num 9), normal = Vec3 (Num 9) (Num 9) (Num 9),
       outside = True\<rparr>)) = False \<and>
   intersectionPoint (snd (sphereIntersectionTest unit_geom
      \<lparr>origin = Vec3 (Num 0) (Num 0) (Num 0), direction = Vec3 (Num 0) (Num 0) (Num 1)\<rparr>
      \<lparr>intersectionPoint = Vec3 (Num 9) (Num 9) (Num 9), normal = Vec3 (Num 9) (Num 9) (Num 9),
       outside = True\<rparr>)) = Vec3 (Num 0) (Num 0) (Num 0.4999) \<and>
   outside (snd (sphereIntersectionTest unit_geom
      \<lparr>origin = Vec3 (Num 0) (Num 0) (Num (- 2)), direction = Vec3 (Num 0) (Num 0) (Num 1)\<rparr>
      \<lparr>intersectionPoint = Vec3 (Num 9) (Num 9) (Num 9), normal = Vec3 (Num 9) (Num 9) (Num 9),
       outside = False\<rparr>)) = True \<and>
   intersectionPoint (snd (sphereIntersectionTest unit_geom
      \<lparr>origin = Vec3 (Num 0) (Num 0) (Num (- 2)), direction = Vec3 (Num 0) (Num 0) (Num 1)\<rparr>
      \<lparr>intersectionPoint = Vec3 (Num 9) (Num 9) (Num 9), normal = Vec3 (Num 9) (Num 9) (Num 9),
       outside = False\<rparr>)) = Vec3 (Num 0) (Num 0) (Num (- 0.5001)) \<and>
   sphereIntersectionTest unit_geom
      \<lparr>origin = Vec3 (Num 0) (Num 0) (Num 2), direction = Vec3 (Num 0) (Num 0) (Num 1)\<rparr>
      \<lparr>intersectionPoint = Vec3 (Num 9) (Num 9) (Num 9), normal = Vec3 (Num 9) (Num 9) (Num 9),
       outside = False\<rparr>
     = (Num (- 1),
        \<lparr>intersectionPoint = Vec3 (Num 9) (Num 9) (Num 9), normal = Vec3 (Num 9) (Num 9) (Num 9),
         outside = False\<rparr>)"
proof -
  let ?r = "\<lambda>c. \<lparr>origin = Vec3 (Num 0) (Num 0) (Num c), direction = Vec3 (Num 0) (Num 0) (Num 1)\<rparr>"
  let ?out = "\<lambda>b. \<lparr>intersectionPoint = Vec3 (Num 9) (Num 9) (Num 9),
                    normal = Vec3 (Num 9) (Num 9) (Num 9), outside = b\<rparr>"
  have h: "\<not> sphere_radicand (object_ray unit_geom (?r c)) < Num 0" for c
    by (simp add: sphere_axis_ray sphere_axis_radicand)
  have t: "transform unit_geom = mat4_identity"
    by (simp add: unit_geom_def)
  from sphere_root_selection [OF h, of 0 "?out True"]
    sphere_root_selection [OF h, of "- 2" "?out False"]
    sphere_root_selection [OF h, of 2 "?out False"]
  show ?thesis
    by (simp add: Let_def sphere_axis_ray sphere_axis_roots sphere_axis_point fmaxf_def fminf_def
        t identity_point)
qed

lemma box_inside_slabs:
  "slab_loop \<lparr>origin = Vec3 (Num 0) (Num 0) (Num 0), direction = Vec3 (Num 0) (Num 0) (Num 1)\<rparr>
   = \<lparr>tmin = Num (- (10 ^ 38)), tmax = Num 0.5,
      tmin_n = Vec3 (Num 0) (Num 0) (Num 0), tmax_n = Vec3 (Num 0) (Num 0) (Num (- 1))\<rparr>"
  by (simp add: slab_loop_def slab_axis_def slab_init_def vidx_def vset_def glm_min_def glm_max_def
      minus_Num vec3_default_def Let_def)

lemma box_parallel_ray:
  "object_ray unit_geom \<lparr>origin = Vec3 (Num 0) (Num 0) (Num (- 2)), direction = Vec3 (Num 0) (Num 1) (Num 0)\<rparr>
   = \<lparr>origin = Vec3 (Num 0) (Num 0) (Num (- 2)), direction = Vec3 (Num 0) (Num 1) (Num 0)\<rparr>"
  by (simp add: object_ray_def unit_geom_def identity_point normalize_axis_y)

lemma box_parallel_slabs:
  "slab_loop \<lparr>origin = Vec3 (Num 0) (Num 0) (Num (- 2)), direction = Vec3 (Num 0) (Num 1) (Num 0)\<rparr>
   = \<lparr>tmin = PInf, tmax = Num 0.5,
      tmin_n = Vec3 (Num 0) (Num 0) (Num (- 1)), tmax_n = Vec3 (Num 0) (Num (- 1)) (Num 0)\<rparr>"
  by (simp add: slab_loop_def slab_axis_def slab_init_def vidx_def vset_def glm_min_def glm_max_def
      minus_Num vec3_default_def Let_def)

theorem box_decision_witness:
  "fst (boxIntersectionTest unit_geom
          \<lparr>origin = Vec3 (Num 0) (Num 0) (Num (- 2)), direction = Vec3 (Num 0) (Num 0) (Num 1)\<rparr>
          \<lparr>intersectionPoint = Vec3 (Num 9) (Num 9) (Num 9), normal = Vec3 (Num 9) (Num 9) (Num 9),
           outside = False\<rparr>) \<noteq> Num (- 1) \<and>
   outside (snd (boxIntersectionTest unit_geom
          \<lparr>origin = Vec3 (Num 0) (Num 0) (Num (- 2)), direction = Vec3 (Num 0) (Num 0) (Num 1)\<rparr>
          \<lparr>intersectionPoint = Vec3 (Num 9) (Num 9) (Num 9), normal = Vec3 (Num 9) (Num 9) (Num 9),
           outside = False\<rparr>)) = True \<and>
   normal (snd (boxIntersectionTest unit_geom
          \<lparr>origin = Vec3 (Num 0) (Num 0) (Num (- 2)), direction = Vec3 (Num 0) (Num 0) (Num 1)\<rparr>
          \<lparr>intersectionPoint = Vec3 (Num 9) (Num 9) (Num 9), normal = Vec3 (Num 9) (Num 9) (Num 9),
           outside = False\<rparr>)) = Vec3 (Num 0) (Num 0) (Num (- 1)) \<and>
   outside (snd (boxIntersectionTest unit_geom
          \<lparr>origin = Vec3 (Num 0) (Num 0) (Num 0), direction = Vec3 (Num 0) (Num 0) (Num 1)\<rparr>
          \<lparr>intersectionPoint = Vec3 (Num 9) (Num 9) (Num 9), normal = Vec3 (Num 9) (Num 9) (Num 9),
           outside = True\<rparr>)) = False \<and>
   intersectionPoint (snd (boxIntersectionTest unit_geom
          \<lparr>origin = Vec3 (Num 0) (Num 0) (Num 0), direction = Vec3 (Num 0) (Num 0) (Num 1)\<rparr>
          \<lparr>intersectionPoint = Vec3 (Num 9) (Num 9) (Num 9), normal = Vec3 (Num 9) (Num 9) (Num 9),
           outside = True\<rparr>)) = Vec3 (Num 0) (Num 0) (Num 0.4999) \<and>
   boxIntersectionTest unit_geom
          \<lparr>origin = Vec3 (Num 0) (Num 0) (Num (- 2)), direction = Vec3 (Num 0) (Num 1) (Num 0)\<rparr>
          \<lparr>intersectionPoint = Vec3 (Num 9) (Num 9) (Num 9), normal = Vec3 (Num 9) (Num 9) (Num 9),
           outside = True\<rparr>
     = (Num (- 1),
        \<lparr>intersectionPoint = Vec3 (Num 9) (Num 9) (Num 9), normal = Vec3 (Num 9) (Num 9) (Num 9),
         outside = True\<rparr>)"
proof -
  let ?r = "\<lambda>c. \<lparr>origin = Vec3 (Num 0) (Num 0) (Num c), direction = Vec3 (Num 0) (Num 0) (Num 1)\<rparr>"
  let ?m = "\<lparr>origin = Vec3 (Num 0) (Num 0) (Num (- 2)), direction = Vec3 (Num 0) (Num 1) (Num 0)\<rparr>"
  let ?out = "\<lambda>b. \<lparr>intersectionPoint = Vec3 (Num 9) (Num 9) (Num 9),
                    normal = Vec3 (Num 9) (Num 9) (Num 9), outside = b\<rparr>"
  have t: "transform unit_geom = mat4_identity"
    by (simp add: unit_geom_def)
  have hit: "fst (boxIntersectionTest unit_geom (?r (- 2)) (?out False)) \<noteq> Num (- 1) \<and>
      outside (snd (boxIntersectionTest unit_geom (?r (- 2)) (?out False))) = True \<and>
      normal (snd (boxIntersectionTest unit_geom (?r (- 2)) (?out False))) = Vec3 (Num 0) (Num 0) (Num (- 1))"
    using box_decision [of unit_geom "?r (- 2)" "?out False"]
    by (simp add: Let_def box_example_ray box_example_slabs t identity_point normalize_axis_z_neg)
  have inside: "outside (snd (boxIntersectionTest unit_geom (?r 0) (?out True))) = False \<and>
      intersectionPoint (snd (boxIntersectionTest unit_geom (?r 0) (?out True)))
        = Vec3 (Num 0) (Num 0) (Num 0.4999)"
    using box_decision [of unit_geom "?r 0" "?out True"]
    by (simp add: Let_def sphere_axis_ray box_inside_slabs sphere_axis_point t identity_point)
  have miss: "boxIntersectionTest unit_geom ?m (?out True) = (Num (- 1), ?out True)"
    using box_decision [of unit_geom ?m "?out True"]
    by (simp add: Let_def box_parallel_ray box_parallel_slabs prod_eq_iff)
  from hit inside miss show ?thesis by simp
qed

theorem box_axis_parallel_witness:
  "slab_axis (object_ray unit_geom
       \<lparr>origin = Vec3 (Num 0) (Num 0) (Num (- 2)), direction = Vec3 (Num 0) (Num 0) (Num 1)\<rparr>) 0 slab_init
     = slab_init \<and>
   boxIntersectionTest unit_geom
       \<lparr>origin = Vec3 (Num 0) (Num 0) (Num (- 2)), direction = Vec3 (Num 0) (Num 1) (Num 0)\<rparr>
       \<lparr>intersectionPoint = Vec3 (Num 9) (Num 9) (Num 9), normal = Vec3 (Num 9) (Num 9) (Num 9),
        outside = False\<rparr>
     = (Num (- 1),
        \<lparr>intersectionPoint = Vec3 (Num 9) (Num 9) (Num 9), normal = Vec3 (Num 9) (Num 9) (Num 9),
         outside = False\<rparr>)"
proof -
  let ?r = "\<lparr>origin = Vec3 (Num 0) (Num 0) (Num (- 2)), direction = Vec3 (Num 0) (Num 0) (Num 1)\<rparr>"
  let ?m = "\<lparr>origin = Vec3 (Num 0) (Num 0) (Num (- 2)), direction = Vec3 (Num 0) (Num 1) (Num 0)\<rparr>"
  let ?out = "\<lparr>intersectionPoint = Vec3 (Num 9) (Num 9) (Num 9), normal = Vec3 (Num 9) (Num 9) (Num 9),
        outside = False\<rparr>"
  have q: "object_ray unit_geom ?m = ?m"
    by (simp add: object_ray_def unit_geom_def identity_point normalize_axis_y)
  have 1: "(0::nat) < 3" by simp
  have 2: "vidx (direction (object_ray unit_geom ?r)) 0 = Num 0"
    by (simp add: box_example_ray vidx_def)
  have 3: "vidx (origin (object_ray unit_geom ?r)) 0 = Num 0"
    by (simp add: box_example_ray vidx_def)
  have 4: "(2::nat) < 3" by simp
  have 5: "vidx (direction (object_ray unit_geom ?m)) 2 = Num 0"
    by (simp add: q vidx_def)
  have 6: "vidx (origin (object_ray unit_geom ?m)) 2 = Num (- 2)"
    by (simp add: q vidx_def)
  from box_axis_parallel [OF 1 2 3, of slab_init ?out] box_axis_parallel [OF 4 5 6, of slab_init ?out]
  show ?thesis by simp
qed

text \<open>
  C5, as stated, fails: \<^verbatim>\<open>getPointOnRay\<close> stops \<open>.0001\<close> short of the face, so the point
  written is not \<open>(0, 0, -0.5)\<close> and the distance returned is not \<open>1.5\<close>.
\<close>

theorem box_example_counterexample:
  "fst (boxIntersectionTest unit_geom
          \<lparr>origin = Vec3 (Num 0) (Num 0) (Num (- 2)), direction = Vec3 (Num 0) (Num 0) (Num 1)\<rparr>
          \<lparr>intersectionPoint = Vec3 (Num 9) (Num 9) (Num 9), normal = Vec3 (Num 9) (Num 9) (Num 9),
           outside = False\<rparr>) \<noteq> Num 1.5 \<and>
   intersectionPoint (snd (boxIntersectionTest unit_geom
          \<lparr>origin = Vec3 (Num 0) (Num 0) (Num (- 2)), direction = Vec3 (Num 0) (Num 0) (Num 1)\<rparr>
          \<lparr>intersectionPoint = Vec3 (Num 9) (Num 9) (Num 9), normal = Vec3 (Num 9) (Num 9) (Num 9),
           outside = False\<rparr>)) \<noteq> Vec3 (Num 0) (Num 0) (Num (- 0.5))"
  by (simp add: box_example)

text \<open>
  C5, amended. For the unit box under the identity transform and the ray from \<open>(0, 0, -2)\<close>
  along \<open>(0, 0, 1)\<close>, the box test returns \<open>1.4999\<close>, writes the point \<open>(0, 0, -0.5001)\<close> and the
  normal \<open>(0, 0, -1)\<close>, and sets \<^verbatim>\<open>outside\<close> to true.
\<close>

theorem box_example_result:
  "boxIntersectionTest unit_geom
     \<lparr>origin = Vec3 (Num 0) (Num 0) (Num (- 2)), direction = Vec3 (Num 0) (Num 0) (Num 1)\<rparr> out =
   (Num 1.4999,
    \<lparr>intersectionPoint = Vec3 (Num 0) (Num 0) (Num (- 0.5001)),
     normal = Vec3 (Num 0) (Num 0) (Num (- 1)),
     outside = True\<rparr>)"
  by (simp add: box_example)

lemma scale_point:
  "multiplyMV (mat4_scale k) (vec4_of (Vec3 (Num a) (Num b) (Num c)) (Num w))
   = Vec3 (Num (k * a)) (Num (k * b)) (Num (k * c))"
  by (simp add: mat4_scale_def vec4_of_def)

lemma normalize_half_z: "glm_normalize (Vec3 (Num 0) (Num 0) (Num (1 / 2))) = Vec3 (Num 0) (Num 0) (Num 1)"
  using sqrt_quarter by (simp add: glm_normalize_def glm_dot_def vscale_def)

lemma normalize_half_y: "glm_normalize (Vec3 (Num 0) (Num (1 / 2)) (Num 0)) = Vec3 (Num 0) (Num 1) (Num 0)"
  using sqrt_quarter by (simp add: glm_normalize_def glm_dot_def vscale_def)

lemma scaled_axis_ray:
  "object_ray (scaled_geom 2) \<lparr>origin = Vec3 (Num 0) (Num 0) (Num c), direction = Vec3 (Num 0) (Num 0) (Num 1)\<rparr>
   = \<lparr>origin = Vec3 (Num 0) (Num 0) (Num (c / 2)), direction = Vec3 (Num 0) (Num 0) (Num 1)\<rparr>"
  by (simp add: object_ray_def scaled_geom_def scale_point normalize_half_z)

lemma scaled_parallel_ray:
  "object_ray (scaled_geom 2) \<lparr>origin = Vec3 (Num 0) (Num 0) (Num (- 4)), direction = Vec3 (Num 0) (Num 1) (Num 0)\<rparr>
   = \<lparr>origin = Vec3 (Num 0) (Num 0) (Num (- 2)), direction = Vec3 (Num 0) (Num 1) (Num 0)\<rparr>"
  by (simp add: object_ray_def scaled_geom_def scale_point normalize_half_y)

lemma length_axis_z: "glm_length (Vec3 (Num 0) (Num 0) (Num c)) = Num \<bar>c\<bar>"
  by (simp add: glm_length_def glm_dot_def)

lemma csg1SDF_scaled_hit_samples:
  "(\<forall>i<6. \<not> csg1SDF (vadd (Vec3 (Num 1.58) (Num 0) (Num 1))
               (vscale (Vec3 (Num 0) (Num 0) (Num 0.5)) (Num (real i * 0.1)))) < Num 0.001) \<and>
   csg1SDF (vadd (Vec3 (Num 1.58) (Num 0) (Num 1))
               (vscale (Vec3 (Num 0) (Num 0) (Num 0.5)) (Num (real (6::nat) * 0.1)))) < Num 0.001 \<and>
   (\<forall>i<4. \<not> csg1SDF (vadd (Vec3 (Num 1.58) (Num 0) (Num 1))
               (vscale (Vec3 (Num 0) (Num 0) (Num 0.5))
                  (Num (real (6::nat) * 0.1 - 0.1 + real i * 0.02)))) < Num 0.001) \<and>
   csg1SDF (vadd (Vec3 (Num 1.58) (Num 0) (Num 1))
               (vscale (Vec3 (Num 0) (Num 0) (Num 0.5))
                  (Num (real (6::nat) * 0.1 - 0.1 + real (4::nat) * 0.02)))) < Num 0.001"
  by (simp add: sample_Num csg1SDF_Num eval_nat_numeral All_less_Suc)

lemma csg1SDF_scaled_miss_samples:
  "\<not> csg1SDF (vadd (Vec3 (Num 1) (Num 0) (Num 0)) (vscale (Vec3 (Num 0) (Num 0.5) (Num 0)) (Num x)))
      < Num 0.001"
  using quartic_positive [of "x / 2"] by (simp add: sample_Num csg1SDF_Num)

theorem returned_distance_witness:
  "fst (boxIntersectionTest (scaled_geom 2)
          \<lparr>origin = Vec3 (Num 0) (Num 0) (Num (- 4)), direction = Vec3 (Num 0) (Num 0) (Num 1)\<rparr>
          \<lparr>intersectionPoint = Vec3 (Num 9) (Num 9) (Num 9), normal = Vec3 (Num 9) (Num 9) (Num 9),
           outside = False\<rparr>) = Num 2.9998 \<and>
   intersectionPoint (snd (boxIntersectionTest (scaled_geom 2)
          \<lparr>origin = Vec3 (Num 0) (Num 0) (Num (- 4)), direction = Vec3 (Num 0) (Num 0) (Num 1)\<rparr>
          \<lparr>intersectionPoint = Vec3 (Num 9) (Num 9) (Num 9), normal = Vec3 (Num 9) (Num 9) (Num 9),
           outside = False\<rparr>)) = Vec3 (Num 0) (Num 0) (Num (- 1.0002)) \<and>
   box_t (scaled_geom 2)
          \<lparr>origin = Vec3 (Num 0) (Num 0) (Num (- 4)), direction = Vec3 (Num 0) (Num 0) (Num 1)\<rparr>
     = Num 1.5 \<and>
   boxIntersectionTest (scaled_geom 2)
          \<lparr>origin = Vec3 (Num 0) (Num 0) (Num (- 4)), direction = Vec3 (Num 0) (Num 1) (Num 0)\<rparr>
          \<lparr>intersectionPoint = Vec3 (Num 9) (Num 9) (Num 9), normal = Vec3 (Num 9) (Num 9) (Num 9),
           outside = False\<rparr>
     = (Num (- 1),
        \<lparr>intersectionPoint = Vec3 (Num 9) (Num 9) (Num 9), normal = Vec3 (Num 9) (Num 9) (Num 9),
         outside = False\<rparr>) \<and>
   fst (sphereIntersectionTest (scaled_geom 2)
          \<lparr>origin = Vec3 (Num 0) (Num 0) (Num (- 4)), direction = Vec3 (Num 0) (Num 0) (Num 1)\<rparr>
          \<lparr>intersectionPoint = Vec3 (Num 9) (Num 9) (Num 9), normal = Vec3 (Num 9) (Num 9) (Num 9),
           outside = False\<rparr>) = Num 2.9998 \<and>
   intersectionPoint (snd (sphereIntersectionTest (scaled_geom 2)
          \<lparr>origin = Vec3 (Num 0) (Num 0) (Num (- 4)), direction = Vec3 (Num 0) (Num 0) (Num 1)\<rparr>
          \<lparr>intersectionPoint = Vec3 (Num 9) (Num 9) (Num 9), normal = Vec3 (Num 9) (Num 9) (Num 9),
           outside = False\<rparr>)) = Vec3 (Num 0) (Num 0) (Num (- 1.0002)) \<and>
   sphere_t (scaled_geom 2)
          \<lparr>origin = Vec3 (Num 0) (Num 0) (Num (- 4)), direction = Vec3 (Num 0) (Num 0) (Num 1)\<rparr>
     = Num 1.5 \<and>
   sphereIntersectionTest (scaled_geom 2)
          \<lparr>origin = Vec3 (Num 0) (Num 0) (Num 4), direction = Vec3 (Num 0) (Num 0) (Num 1)\<rparr>
          \<lparr>intersectionPoint = Vec3 (Num 9) (Num 9) (Num 9), normal = Vec3 (Num 9) (Num 9) (Num 9),
           outside = False\<rparr>
     = (Num (- 1),
        \<lparr>intersectionPoint = Vec3 (Num 9) (Num 9) (Num 9), normal = Vec3 (Num 9) (Num 9) (Num 9),
         outside = False\<rparr>) \<and>
   fst (csg1IntersectionTest (Num 0.00001) (scaled_geom 2)
          \<lparr>origin = Vec3 (Num 3.16) (Num 0) (Num 2), direction = Vec3 (Num 0) (Num 0) (Num 1)\<rparr>
          \<lparr>intersectionPoint = Vec3 (Num 9) (Num 9) (Num 9), normal = Vec3 (Num 9) (Num 9) (Num 9),
           outside = True\<rparr>) = Num 0.56 \<and>
   intersectionPoint (snd (csg1IntersectionTest (Num 0.00001) (scaled_geom 2)
          \<lparr>origin = Vec3 (Num 3.16) (Num 0) (Num 2), direction = Vec3 (Num 0) (Num 0) (Num 1)\<rparr>
          \<lparr>intersectionPoint = Vec3 (Num 9) (Num 9) (Num 9), normal = Vec3 (Num 9) (Num 9) (Num 9),
           outside = True\<rparr>)) = Vec3 (Num 3.16) (Num 0) (Num 2.56) \<and>
   fst (csg1IntersectionTest (Num 0.00001) (scaled_geom 2)
          \<lparr>origin = Vec3 (Num 2) (Num 0) (Num 0), direction = Vec3 (Num 0) (Num 1) (Num 0)\<rparr>
          \<lparr>intersectionPoint = Vec3 (Num 9) (Num 9) (Num 9), normal = Vec3 (Num 9) (Num 9) (Num 9),
           outside = True\<rparr>) = Num 0"
proof -
  let ?g = "scaled_geom 2"
  let ?r = "\<lambda>c. \<lparr>origin = Vec3 (Num 0) (Num 0) (Num c), direction = Vec3 (Num 0) (Num 0) (Num 1)\<rparr>"
  let ?m = "\<lparr>origin = Vec3 (Num 0) (Num 0) (Num (- 4)), direction = Vec3 (Num 0) (Num 1) (Num 0)\<rparr>"
  let ?h = "\<lparr>origin = Vec3 (Num 3.16) (Num 0) (Num 2), direction = Vec3 (Num 0) (Num 0) (Num 1)\<rparr>"
  let ?n = "\<lparr>origin = Vec3 (Num 2) (Num 0) (Num 0), direction = Vec3 (Num 0) (Num 1) (Num 0)\<rparr>"
  let ?out = "\<lambda>b. \<lparr>intersectionPoint = Vec3 (Num 9) (Num 9) (Num 9),
                    normal = Vec3 (Num 9) (Num 9) (Num 9), outside = b\<rparr>"
  have t: "transform ?g = mat4_scale 2"
    by (simp add: scaled_geom_def)
  have bh: "box_hit ?g (?r (- 4))"
    using box_example_slabs by (simp add: box_hit_def scaled_axis_ray)
  have bt: "box_t ?g (?r (- 4)) = Num 1.5"
    using box_example_slabs by (simp add: box_t_def scaled_axis_ray)
  have bm: "\<not> box_hit ?g ?m"
    by (simp add: box_hit_def scaled_parallel_ray box_parallel_slabs)
  have box: "fst (boxIntersectionTest ?g (?r (- 4)) (?out False)) = Num 2.9998 \<and>
      intersectionPoint (snd (boxIntersectionTest ?g (?r (- 4)) (?out False)))
        = Vec3 (Num 0) (Num 0) (Num (- 1.0002))"
    using returned_distance [of ?g "?r (- 4)" "?out False" "Num 0.00001"] bh
    by (simp add: bt scaled_axis_ray sphere_axis_point t scale_point vsub_def minus_Num length_axis_z)
  have box_miss: "boxIntersectionTest ?g ?m (?out False) = (Num (- 1), ?out False)"
    using returned_distance [of ?g ?m "?out False" "Num 0.00001"] bm by simp
  have sh: "sphere_hit ?g (?r (- 4))"
    by (simp add: sphere_hit_def scaled_axis_ray sphere_axis_radicand sphere_axis_roots)
  have st: "sphere_t ?g (?r (- 4)) = Num 1.5"
    by (simp add: sphere_t_def scaled_axis_ray sphere_axis_roots fminf_def)
  have sm: "\<not> sphere_hit ?g (?r 4)"
    by (simp add: sphere_hit_def scaled_axis_ray sphere_axis_radicand sphere_axis_roots)
  have sphere: "fst (sphereIntersectionTest ?g (?r (- 4)) (?out False)) = Num 2.9998 \<and>
      intersectionPoint (snd (sphereIntersectionTest ?g (?r (- 4)) (?out False)))
        = Vec3 (Num 0) (Num 0) (Num (- 1.0002))"
    using returned_distance [of ?g "?r (- 4)" "?out False" "Num 0.00001"] sh
    by (simp add: st scaled_axis_ray sphere_axis_point t scale_point vsub_def minus_Num length_axis_z)
  have sphere_miss: "sphereIntersectionTest ?g (?r 4) (?out False) = (Num (- 1), ?out False)"
    using returned_distance [of ?g "?r 4" "?out False" "Num 0.00001"] sm by simp
  have hp: "object_point ?g ?h = Vec3 (Num 1.58) (Num 0) (Num 1)"
    by (simp add: object_point_def scaled_geom_def scale_point)
  have hd: "object_direction ?g ?h = Vec3 (Num 0) (Num 0) (Num 0.5)"
    by (simp add: object_direction_def scaled_geom_def scale_point)
  have "march csg1SDF (Vec3 (Num 1.58) (Num 0) (Num 1)) (Vec3 (Num 0) (Num 0) (Num 0.5)) True =
         (Num (real (6::nat) * 0.1 - 0.1 + real (4::nat) * 0.02 - 0.02),
          \<lparr>m_t = Num (real (6::nat) * 0.1 - 0.1 + real (4::nat) * 0.02 - 0.02),
           m_step = SMALLSTEPSIZE, m_outside = True, m_coarse = Suc 6, m_fine = Suc 4\<rparr>)"
    using csg1SDF_scaled_hit_samples by (intro march_first) simp_all
  then have ht: "fst (csg1Raytrace (object_point ?g ?h) (object_direction ?g ?h) (Num 100) True)
      = Num 0.56"
    unfolding hp hd by (simp add: csg1Raytrace_def)
  have csg_hit: "fst (csg1IntersectionTest (Num 0.00001) ?g ?h (?out True)) = Num 0.56 \<and>
      intersectionPoint (snd (csg1IntersectionTest (Num 0.00001) ?g ?h (?out True)))
        = Vec3 (Num 3.16) (Num 0) (Num 2.56)"
    using returned_distance [of ?g ?h "?out True" "Num 0.00001"] ht hp hd
    by (simp add: t sample_Num scale_point)
  have np: "object_point ?g ?n = Vec3 (Num 1) (Num 0) (Num 0)"
    by (simp add: object_point_def scaled_geom_def scale_point)
  have nd: "object_direction ?g ?n = Vec3 (Num 0) (Num 0.5) (Num 0)"
    by (simp add: object_direction_def scaled_geom_def scale_point)
  have "\<forall>i<700. \<not> csg1SDF (vadd (object_point ?g ?n)
                  (vscale (object_direction ?g ?n) (Num (real i * 0.1)))) < Num 0.001"
    unfolding np nd by (simp only: csg1SDF_scaled_miss_samples) simp
  then have csg_miss: "fst (csg1IntersectionTest (Num 0.00001) ?g ?n (?out True)) = Num 0"
    using returned_distance [of ?g ?n "?out True" "Num 0.00001"] by blast
  from box bt box_miss sphere st sphere_miss csg_hit csg_miss show ?thesis by simp
qed

end
